theory Spec2Isabelle
  imports Main
begin

section \<open>JavaScript values\<close>

text \<open>
  The plugin loader of \<^verbatim>\<open>lib/plugin.js\<close> inspects the values a required module exports.
  A value is one of the JavaScript primitives, a function, an array or a plain object.
  An object is the list of its own properties; a property is looked up by name and the
  first entry with that name is the property. Numbers are the integers (only their
  truthiness and their type are ever inspected). A function value carries a name, which
  stands for its identity, and the outcome of invoking it with no arguments: it returns a
  value, returns a promise that fulfils or rejects some ticks later, or throws. Invoking
  the same function again has the same outcome, except under a script of the section on
  side effects, which can give the function another outcome at each invocation.
\<close>

datatype 'a outcome =
    Returns 'a
  | Fulfils nat 'a
  | Throws 'a
  | Rejects nat 'a

datatype jsval =
    Undefined
  | Null
  | Bool bool
  | Num int
  | Str string
  | Fun string "jsval outcome"
  | Arr "jsval list"
  | Obj "(string \<times> jsval) list"

datatype jstype = TUndefined | TObject | TBoolean | TNumber | TString | TFunction

text \<open>The \<^verbatim>\<open>typeof\<close> operator: \<^verbatim>\<open>null\<close> and arrays are of type object.\<close>

fun typeof :: "jsval \<Rightarrow> jstype" where
  "typeof Undefined = TUndefined"
| "typeof Null = TObject"
| "typeof (Bool b) = TBoolean"
| "typeof (Num n) = TNumber"
| "typeof (Str s) = TString"
| "typeof (Fun f r) = TFunction"
| "typeof (Arr xs) = TObject"
| "typeof (Obj ps) = TObject"

fun isArray :: "jsval \<Rightarrow> bool" where
  "isArray (Arr xs) = True"
| "isArray v = False"

text \<open>Truthiness, as tested by \<^verbatim>\<open>if (impl)\<close> and \<^verbatim>\<open>requiredModule && ...\<close>.\<close>

fun truthy :: "jsval \<Rightarrow> bool" where
  "truthy Undefined = False"
| "truthy Null = False"
| "truthy (Bool b) = b"
| "truthy (Num n) = (n \<noteq> 0)"
| "truthy (Str s) = (s \<noteq> [])"
| "truthy (Fun f r) = True"
| "truthy (Arr xs) = True"
| "truthy (Obj ps) = True"

subsection \<open>Property access\<close>

text \<open>The value of a decimal digit, from its character code.\<close>

definition digit :: "char \<Rightarrow> nat option" where
  "digit c =
     (let code = (of_char c :: nat)
      in if 48 \<le> code \<and> code \<le> 57 then Some (code - 48) else None)"

fun digits :: "nat \<Rightarrow> string \<Rightarrow> nat option" where
  "digits acc [] = Some acc"
| "digits acc (c # cs) =
     (case digit c of None \<Rightarrow> None | Some d \<Rightarrow> digits (10 * acc + d) cs)"

text \<open>
  A property name is an array index when it is the canonical decimal form of a number:
  not empty, only digits, no leading zero except for \<^verbatim>\<open>"0"\<close> itself.
\<close>

fun array_index :: "string \<Rightarrow> nat option" where
  "array_index [] = None"
| "array_index (c # cs) =
     (if c = CHR ''0'' \<and> cs \<noteq> [] then None else digits 0 (c # cs))"

text \<open>
  \<^verbatim>\<open>value[name]\<close> on the own properties of a value. An array has its elements and
  \<^verbatim>\<open>length\<close>; properties inherited from a prototype are not part of the model: under a
  name that every object inherits, such as \<^verbatim>\<open>toString\<close>, the code reads the inherited
  function where this reads \<^verbatim>\<open>undefined\<close>. None of the built-in names is inherited. Reading a
  property of \<^verbatim>\<open>null\<close> or \<^verbatim>\<open>undefined\<close> throws in JavaScript; the loader reads properties
  only behind a guard that excludes both, and here the read gives \<^verbatim>\<open>undefined\<close>.
\<close>

fun get_prop :: "jsval \<Rightarrow> string \<Rightarrow> jsval" where
  "get_prop (Obj ps) name = (case map_of ps name of Some v \<Rightarrow> v | None \<Rightarrow> Undefined)"
| "get_prop (Arr xs) name =
     (if name = ''length'' then Num (int (length xs))
      else case array_index name of
             Some i \<Rightarrow> (if i < length xs then xs ! i else Undefined)
           | None \<Rightarrow> Undefined)"
| "get_prop v name = Undefined"

subsection \<open>Helpers required from other modules\<close>

text \<open>
  Modelled from the spec: \<^verbatim>\<open>castArray\<close> of \<^verbatim>\<open>./utils\<close>, which is required by
  \<^verbatim>\<open>lib/plugin.js\<close> but is not among the sources. The specification describes it as the
  single coercion to an ordered sequence: a bare function or single object becomes a
  one-element sequence, an already array-like value is used as it is.
\<close>

fun castArray :: "jsval \<Rightarrow> jsval list" where
  "castArray (Arr xs) = xs"
| "castArray v = [v]"

datatype error =
    Error string
  | UnsupportedError string
  | TypeError string
  | Raised jsval

text \<open>
  Modelled from the spec: \<^verbatim>\<open>createUnsupportedError\<close> of \<^verbatim>\<open>./errors\<close>, not among the
  sources either. It builds the descriptive "unsupported" error that carries the message
  it is given. \<^term>\<open>Error\<close> is a plain \<^verbatim>\<open>new Error(message)\<close>, \<^term>\<open>TypeError\<close> is raised by
  the language itself, and \<^term>\<open>Raised\<close> is a value thrown by a user's function.
\<close>

definition createUnsupportedError :: "string \<Rightarrow> error" where
  "createUnsupportedError message = UnsupportedError message"

section \<open>The built-in validators\<close>

text \<open>
  A validator returns nothing and may throw: \<^term>\<open>None\<close> is the normal return,
  \<^term>\<open>Some e\<close> is the error thrown.
\<close>

type_synonym validator = "jsval \<Rightarrow> error option"

fun elements :: "jsval \<Rightarrow> jsval list" where
  "elements (Arr xs) = xs"
| "elements v = []"

definition createFunctionArrayValidator :: "string \<Rightarrow> validator" where
  "createFunctionArrayValidator pluginType value =
     (let isValid =
        (if isArray value
         then (if list_ex (\<lambda>item. typeof item \<noteq> TFunction) (elements value)
               then False else True)
         else if typeof value \<noteq> TFunction then False else True)
      in if \<not> isValid
         then Some (createUnsupportedError
                      (pluginType @ '' must be a function or an array of functions''))
         else None)"

definition mochaHooks_validate :: validator where
  "mochaHooks_validate value =
     (if isArray value \<or> (typeof value \<noteq> TFunction \<and> typeof value \<noteq> TObject)
      then Some (createUnsupportedError
        ''mochaHooks must be an object or a function returning (or fulfilling with) an object'')
      else None)"

section \<open>Promises\<close>

text \<open>
  A promise settles at some tick, fulfilled with a value (\<^term>\<open>Inr\<close>) or rejected with an
  error (\<^term>\<open>Inl\<close>).
\<close>

datatype promise = Promise (settles_at: nat) (settlement: "error + jsval")

text \<open>
  \<^verbatim>\<open>Promise.all\<close> keeps a list of values, one slot for each input promise. Promises settle
  in the order of their ticks, and promises of the same tick in the order of the input.
  A fulfilment stores its value in the slot of its promise; the first rejection rejects
  the whole. When every promise has settled, the result is the list of values.
\<close>

fun settle_all :: "(nat \<times> promise) list \<Rightarrow> jsval list \<Rightarrow> error + jsval list" where
  "settle_all [] vals = Inr vals"
| "settle_all ((i, p) # rest) vals =
     (case settlement p of
        Inl e \<Rightarrow> Inl e
      | Inr v \<Rightarrow> settle_all rest (vals[i := v]))"

definition Promise_all :: "promise list \<Rightarrow> error + jsval list" where
  "Promise_all ps =
     settle_all (sort_key (\<lambda>(i, p). settles_at p) (enumerate 0 ps))
       (replicate (length ps) Undefined)"

text \<open>
  The arrow function \<^verbatim>\<open>async hook => typeof hook === 'function' ? hook() : hook\<close>:
  its promise adopts what the invoked function returns, is rejected with what the function
  throws, and is fulfilled at once with a hook that is not a function.
\<close>

fun resolve_hook :: "jsval \<Rightarrow> promise" where
  "resolve_hook (Fun f (Returns v)) = Promise 0 (Inr v)"
| "resolve_hook (Fun f (Fulfils d v)) = Promise d (Inr v)"
| "resolve_hook (Fun f (Throws e)) = Promise 0 (Inl (Raised e))"
| "resolve_hook (Fun f (Rejects d e)) = Promise d (Inl (Raised e))"
| "resolve_hook hook = Promise 0 (Inr hook)"

section \<open>Root hook aggregation\<close>

record RootHookSet =
  beforeAll :: "jsval list"
  beforeEach :: "jsval list"
  afterAll :: "jsval list"
  afterEach :: "jsval list"

definition no_hooks :: RootHookSet where
  "no_hooks = \<lparr>beforeAll = [], beforeEach = [], afterAll = [], afterEach = []\<rparr>"

text \<open>
  \<^verbatim>\<open>hook[key]\<close> after \<^verbatim>\<open>hook = {beforeAll: [], beforeEach: [], afterAll: [], afterEach: [], ...hook}\<close>,
  for one of the four keys: the property of the hook when it has one of that name, and
  the empty array otherwise. Spreading a value that is not a plain object adds none of
  the four keys.
\<close>

fun lifecycle :: "string \<Rightarrow> jsval \<Rightarrow> jsval" where
  "lifecycle key (Obj ps) = (case map_of ps key of Some v \<Rightarrow> v | None \<Rightarrow> Arr [])"
| "lifecycle key hook = Arr []"

definition merge_hook :: "RootHookSet \<Rightarrow> jsval \<Rightarrow> RootHookSet" where
  "merge_hook acc hook =
     \<lparr>beforeAll = beforeAll acc @ castArray (lifecycle ''beforeAll'' hook),
      beforeEach = beforeEach acc @ castArray (lifecycle ''beforeEach'' hook),
      afterAll = afterAll acc @ castArray (lifecycle ''afterAll'' hook),
      afterEach = afterEach acc @ castArray (lifecycle ''afterEach'' hook)\<rparr>"

definition hook_object :: "RootHookSet \<Rightarrow> jsval" where
  "hook_object hs =
     Obj [(''beforeAll'', Arr (beforeAll hs)), (''beforeEach'', Arr (beforeEach hs)),
          (''afterAll'', Arr (afterAll hs)), (''afterEach'', Arr (afterEach hs))]"

text \<open>
  The \<^verbatim>\<open>finalize\<close> of the \<^verbatim>\<open>mochaHooks\<close> plugin. With no root hooks the function body
  falls through and the promise fulfils with \<^verbatim>\<open>undefined\<close>.
\<close>

definition mochaHooks_finalize :: "jsval list \<Rightarrow> error + jsval" where
  "mochaHooks_finalize rootHooks =
     (if rootHooks \<noteq> []
      then (case Promise_all (map resolve_hook rootHooks) of
              Inl e \<Rightarrow> Inl e
            | Inr rootHookObjects \<Rightarrow>
                Inr (hook_object (foldl merge_hook no_hooks rootHookObjects)))
      else Inr Undefined)"

text \<open>
  The exported \<^verbatim>\<open>aggregateRootHooks\<close> of the second loader. Its parameter defaults to the
  empty array. It prints the resolved hook objects with \<^verbatim>\<open>console.dir\<close>: the first
  component of the result is what was printed.
\<close>

definition aggregateRootHooks :: "jsval list option \<Rightarrow> jsval list \<times> (error + jsval)" where
  "aggregateRootHooks arg =
     (let rootHooks = (case arg of None \<Rightarrow> [] | Some hooks \<Rightarrow> hooks)
      in case Promise_all (map resolve_hook rootHooks) of
           Inl e \<Rightarrow> ([], Inl e)
         | Inr rootHookObjects \<Rightarrow>
             ([Arr rootHookObjects],
              Inr (hook_object (foldl merge_hook no_hooks rootHookObjects))))"

section \<open>Plugin definitions\<close>

text \<open>
  A \<^verbatim>\<open>PluginDefinition\<close>: the export name, and optionally an option name, a validator and a
  finalizer. Validators and finalizers are functions of their argument alone. A finalizer
  is awaited by its caller: its result is the value its promise fulfils with, or the error
  it throws or rejects with.
\<close>

type_synonym finalizer = "jsval list \<Rightarrow> error + jsval"

record PluginDefinition =
  exportName :: string
  optionName :: "string option"
  validate :: "validator option"
  finalize :: "finalizer option"

definition MochaPlugins :: "PluginDefinition list" where
  "MochaPlugins =
     [\<lparr>exportName = ''mochaHooks'', optionName = Some ''rootHooks'',
       validate = Some mochaHooks_validate, finalize = Some mochaHooks_finalize\<rparr>,
      \<lparr>exportName = ''mochaGlobalSetup'', optionName = Some ''globalSetup'',
       validate = Some (createFunctionArrayValidator ''mochaGlobalSetup''), finalize = None\<rparr>,
      \<lparr>exportName = ''mochaGlobalTeardown'', optionName = Some ''globalTeardown'',
       validate = Some (createFunctionArrayValidator ''mochaGlobalTeardown''),
       finalize = None\<rparr>]"

section \<open>Maps with insertion order\<close>

text \<open>
  A JavaScript \<^verbatim>\<open>Map\<close>, and an object used as a dictionary, is a list of entries in
  insertion order. \<^verbatim>\<open>get\<close> is \<^term>\<open>map_of\<close>; \<^verbatim>\<open>set\<close> replaces the value of a key that is
  present, in place, and appends an entry for a key that is not.
\<close>

fun map_set :: "'k \<Rightarrow> 'v \<Rightarrow> ('k \<times> 'v) list \<Rightarrow> ('k \<times> 'v) list" where
  "map_set k v [] = [(k, v)]"
| "map_set k v ((k', v') # es) =
     (if k' = k then (k, v) # es else (k', v') # map_set k v es)"

definition map_has :: "('k \<times> 'v) list \<Rightarrow> 'k \<Rightarrow> bool" where
  "map_has es k = (map_of es k \<noteq> None)"

section \<open>The plugin loader with a registry\<close>

record PluginLoader =
  registered :: "(string \<times> PluginDefinition) list"
  loaded :: "(string \<times> jsval list) list"

text \<open>
  A method takes the loader and gives the loader after the call, with what the call
  returned (\<^term>\<open>Inr\<close>) or threw (\<^term>\<open>Inl\<close>). \<^verbatim>\<open>register\<close> throws before it writes, so a
  failed \<^verbatim>\<open>register\<close> has no loader to give back.
\<close>

definition register :: "PluginLoader \<Rightarrow> PluginDefinition \<Rightarrow> error + PluginLoader" where
  "register this plugin =
     (if map_has (registered this) (exportName plugin)
      then Inl (Error (''plugin name conflict: '' @ exportName plugin))
      else Inr (this\<lparr>registered := map_set (exportName plugin) plugin (registered this)\<rparr>))"

definition exportNames :: "PluginLoader \<Rightarrow> string list" where
  "exportNames this = map (\<lambda>(key, plugin). key) (registered this)"

fun register_each :: "PluginLoader \<Rightarrow> PluginDefinition list \<Rightarrow> error + PluginLoader" where
  "register_each this [] = Inr this"
| "register_each this (pluginDef # rest) =
     (case register this pluginDef of
        Inl e \<Rightarrow> Inl e
      | Inr this' \<Rightarrow> register_each this' rest)"

text \<open>
  The constructor. An error thrown while registering leaves no loader. The buckets are
  created from the export names: an entry with a name seen before overwrites the earlier
  one.
\<close>

definition new_PluginLoader :: "PluginDefinition list option \<Rightarrow> error + PluginLoader" where
  "new_PluginLoader pluginDefinitions =
     (case register_each \<lparr>registered = [], loaded = []\<rparr>
             (case pluginDefinitions of None \<Rightarrow> MochaPlugins | Some defs \<Rightarrow> defs) of
        Inl e \<Rightarrow> Inl e
      | Inr this \<Rightarrow>
          Inr (this\<lparr>loaded := foldl (\<lambda>m name. map_set name [] m) [] (exportNames this)\<rparr>))"

definition create :: "PluginDefinition list option \<Rightarrow> error + PluginLoader" where
  "create pluginDefs =
     new_PluginLoader (Some (case pluginDefs of None \<Rightarrow> MochaPlugins | Some defs \<Rightarrow> defs))"

text \<open>
  The body of \<^verbatim>\<open>load\<close> reduces over the export names, which are read once before the
  reduction starts. A name registered after construction has no bucket, and spreading its
  missing bucket is a \<^verbatim>\<open>TypeError\<close>. An error ends the call at once; what was written
  before stays written.
\<close>

fun load_reduce ::
  "jsval \<Rightarrow> string list \<Rightarrow> bool \<Rightarrow> PluginLoader \<Rightarrow> PluginLoader \<times> (error + bool)" where
  "load_reduce requiredModule [] isFound this = (this, Inr isFound)"
| "load_reduce requiredModule (pluginName # rest) isFound this =
     (let impl = get_prop requiredModule pluginName in
      if truthy impl then
        (case map_of (registered this) pluginName of
           None \<Rightarrow> (this, Inl (TypeError ''Cannot read property validate of undefined''))
         | Some plugin \<Rightarrow>
            (case (case validate plugin of None \<Rightarrow> None | Some check \<Rightarrow> check impl) of
               Some e \<Rightarrow> (this, Inl e)
             | None \<Rightarrow>
                (case map_of (loaded this) pluginName of
                   None \<Rightarrow> (this, Inl (TypeError ''undefined is not iterable''))
                 | Some bucket \<Rightarrow>
                     load_reduce requiredModule rest True
                       (this\<lparr>loaded :=
                          map_set pluginName (bucket @ castArray impl) (loaded this)\<rparr>))))
      else load_reduce requiredModule rest isFound this)"

definition load :: "PluginLoader \<Rightarrow> jsval \<Rightarrow> PluginLoader \<times> (error + bool)" where
  "load this requiredModule =
     (if truthy requiredModule \<and> typeof requiredModule = TObject
      then load_reduce requiredModule (exportNames this) False this
      else (this, Inr False))"

text \<open>
  \<^verbatim>\<open>finalize\<close> walks the buckets in order and fills an object that starts empty;
  \<^verbatim>\<open>plugin.optionName || exportName\<close> falls back to the export name when the option name
  is missing or the empty string.
\<close>

type_synonym settings = "(string \<times> jsval) list"

definition option_key :: "PluginDefinition \<Rightarrow> string \<Rightarrow> string" where
  "option_key plugin name =
     (case optionName plugin of
        None \<Rightarrow> name
      | Some opt \<Rightarrow> (if opt \<noteq> [] then opt else name))"

fun finalize_entries ::
  "PluginLoader \<Rightarrow> (string \<times> jsval list) list \<Rightarrow> settings \<Rightarrow> error + settings" where
  "finalize_entries this [] finalizedPlugins = Inr finalizedPlugins"
| "finalize_entries this ((name, impls) # rest) finalizedPlugins =
     (if impls \<noteq> [] then
        (case map_of (registered this) name of
           None \<Rightarrow> Inl (TypeError ''Cannot read property finalize of undefined'')
         | Some plugin \<Rightarrow>
            (case finalize plugin of
               Some aggregate \<Rightarrow>
                 (case aggregate impls of
                    Inl e \<Rightarrow> Inl e
                  | Inr v \<Rightarrow>
                      finalize_entries this rest
                        (map_set (option_key plugin name) v finalizedPlugins))
             | None \<Rightarrow> finalize_entries this rest finalizedPlugins))
      else finalize_entries this rest finalizedPlugins)"

definition PluginLoader_finalize :: "PluginLoader \<Rightarrow> PluginLoader \<times> (error + settings)" where
  "PluginLoader_finalize this = (this, finalize_entries this (loaded this) [])"

section \<open>The plugin loader with a plugin map\<close>

text \<open>
  The second loader of the sources takes the plugin names and an object of validators,
  keyed by plugin name, and knows the three built-in kinds by name in \<^verbatim>\<open>finalize\<close>.
  Its methods have the names of the first loader's, here with a suffix.
\<close>

definition PLUGIN_ROOT_HOOKS :: string where
  "PLUGIN_ROOT_HOOKS = ''mochaHooks''"

definition PLUGIN_GLOBAL_SETUP :: string where
  "PLUGIN_GLOBAL_SETUP = ''mochaGlobalSetup''"

definition PLUGIN_GLOBAL_TEARDOWN :: string where
  "PLUGIN_GLOBAL_TEARDOWN = ''mochaGlobalTeardown''"

definition PLUGIN_NAMES :: "string list" where
  "PLUGIN_NAMES = [PLUGIN_ROOT_HOOKS, PLUGIN_GLOBAL_SETUP, PLUGIN_GLOBAL_TEARDOWN]"

definition PluginValidators :: "(string \<times> validator) list" where
  "PluginValidators =
     [(PLUGIN_ROOT_HOOKS, \<lambda>value.
         if isArray value \<or> (typeof value \<noteq> TFunction \<and> typeof value \<noteq> TObject)
         then Some (createUnsupportedError
           (PLUGIN_ROOT_HOOKS @
            '' must be an object or a function returning (or fulfilling with) an object''))
         else None),
      (PLUGIN_GLOBAL_SETUP, createFunctionArrayValidator PLUGIN_GLOBAL_SETUP),
      (PLUGIN_GLOBAL_TEARDOWN, createFunctionArrayValidator PLUGIN_GLOBAL_TEARDOWN)]"

record PluginMapLoader =
  pluginNames :: "string list"
  pluginMap :: "(string \<times> jsval list) list"
  pluginValidators :: "(string \<times> validator) list"

definition new_PluginMapLoader ::
  "string list option \<Rightarrow> (string \<times> validator) list option \<Rightarrow> PluginMapLoader" where
  "new_PluginMapLoader names validators =
     (let pluginNames = (case names of None \<Rightarrow> PLUGIN_NAMES | Some ns \<Rightarrow> ns) in
      \<lparr>pluginNames = pluginNames,
       pluginMap = foldl (\<lambda>m name. map_set name [] m) [] pluginNames,
       pluginValidators = (case validators of None \<Rightarrow> PluginValidators | Some vs \<Rightarrow> vs)\<rparr>)"

definition create_pm ::
  "string list option \<Rightarrow> (string \<times> validator) list option \<Rightarrow> PluginMapLoader" where
  "create_pm names validators = new_PluginMapLoader names validators"

fun load_reduce_pm ::
  "jsval \<Rightarrow> string list \<Rightarrow> bool \<Rightarrow> PluginMapLoader \<Rightarrow> PluginMapLoader \<times> (error + bool)"
  where
  "load_reduce_pm requiredModule [] isFound this = (this, Inr isFound)"
| "load_reduce_pm requiredModule (pluginName # rest) isFound this =
     (let plugin = get_prop requiredModule pluginName in
      if truthy plugin then
        (case (case map_of (pluginValidators this) pluginName of
                 None \<Rightarrow> None
               | Some check \<Rightarrow> check plugin) of
           Some e \<Rightarrow> (this, Inl e)
         | None \<Rightarrow>
            (case map_of (pluginMap this) pluginName of
               None \<Rightarrow> (this, Inl (TypeError ''undefined is not iterable''))
             | Some bucket \<Rightarrow>
                 load_reduce_pm requiredModule rest True
                   (this\<lparr>pluginMap :=
                      map_set pluginName (bucket @ castArray plugin) (pluginMap this)\<rparr>)))
      else load_reduce_pm requiredModule rest isFound this)"

definition load_pm :: "PluginMapLoader \<Rightarrow> jsval \<Rightarrow> PluginMapLoader \<times> (error + bool)" where
  "load_pm this requiredModule =
     (if truthy requiredModule \<and> typeof requiredModule = TObject
      then load_reduce_pm requiredModule (pluginNames this) False this
      else (this, Inr False))"

text \<open>
  \<^verbatim>\<open>finalize\<close> of the second loader reads the three built-in buckets; the \<^verbatim>\<open>length\<close> of a
  bucket that does not exist is a \<^verbatim>\<open>TypeError\<close>. The result comes with what
  \<^verbatim>\<open>aggregateRootHooks\<close> printed.
\<close>

definition finalize_pm ::
  "PluginMapLoader \<Rightarrow> PluginMapLoader \<times> jsval list \<times> (error + settings)" where
  "finalize_pm this =
     (case map_of (pluginMap this) PLUGIN_ROOT_HOOKS of
        None \<Rightarrow> (this, [], Inl (TypeError ''Cannot read property length of undefined''))
      | Some mochaHooks \<Rightarrow>
         (let (printed, rootHooks) =
            (if mochaHooks \<noteq> []
             then (case aggregateRootHooks (Some mochaHooks) of
                     (out, Inl e) \<Rightarrow> (out, Inl e)
                   | (out, Inr v) \<Rightarrow> (out, Inr (map_set ''rootHooks'' v [])))
             else ([], Inr []))
          in case rootHooks of
               Inl e \<Rightarrow> (this, printed, Inl e)
             | Inr finalizedPlugins \<Rightarrow>
                (case map_of (pluginMap this) PLUGIN_GLOBAL_SETUP of
                   None \<Rightarrow>
                     (this, printed, Inl (TypeError ''Cannot read property length of undefined''))
                 | Some mochaGlobalSetup \<Rightarrow>
                    (let finalizedPlugins' =
                       (if mochaGlobalSetup \<noteq> []
                        then map_set ''globalSetup'' (Arr mochaGlobalSetup) finalizedPlugins
                        else finalizedPlugins)
                     in case map_of (pluginMap this) PLUGIN_GLOBAL_TEARDOWN of
                          None \<Rightarrow>
                            (this, printed,
                             Inl (TypeError ''Cannot read property length of undefined''))
                        | Some mochaGlobalTeardown \<Rightarrow>
                            (this, printed,
                             Inr (if mochaGlobalTeardown \<noteq> []
                                  then map_set ''globalTeardown'' (Arr mochaGlobalTeardown)
                                         finalizedPlugins'
                                  else finalizedPlugins'))))))"

section \<open>Finalization with side effects\<close>













section \<open>Notions used to state the properties\<close>

text \<open>
  A value passes the validation of a registered name when the name is registered and its
  validator, if it has one, returns without throwing.
\<close>

definition accepts :: "PluginLoader \<Rightarrow> string \<Rightarrow> jsval \<Rightarrow> bool" where
  "accepts this name v =
     (case map_of (registered this) name of
        None \<Rightarrow> False
      | Some plugin \<Rightarrow> (case validate plugin of None \<Rightarrow> True | Some check \<Rightarrow> check v = None))"

text \<open>
  The driver hands the modules to \<^verbatim>\<open>load\<close> one at a time, in order; the result of every
  call is recorded, and a call that throws does not stop the ones after it.
\<close>

fun load_all :: "PluginLoader \<Rightarrow> jsval list \<Rightarrow> PluginLoader \<times> (error + bool) list" where
  "load_all this [] = (this, [])"
| "load_all this (m # ms) =
     (case load this m of
        (this', r) \<Rightarrow> (case load_all this' ms of (this'', rs) \<Rightarrow> (this'', r # rs)))"

fun load_all_pm ::
  "PluginMapLoader \<Rightarrow> jsval list \<Rightarrow> PluginMapLoader \<times> (error + bool) list" where
  "load_all_pm this [] = (this, [])"
| "load_all_pm this (m # ms) =
     (case load_pm this m of
        (this', r) \<Rightarrow> (case load_all_pm this' ms of (this'', rs) \<Rightarrow> (this'', r # rs)))"

text \<open>
  What a module contributes to the bucket of a name: nothing when the module is not an
  object or its property of that name is falsy, and the property as a sequence otherwise.
\<close>

definition contribution :: "string \<Rightarrow> jsval \<Rightarrow> jsval list" where
  "contribution name m =
     (if truthy m \<and> typeof m = TObject \<and> truthy (get_prop m name)
      then castArray (get_prop m name) else [])"

text \<open>
  A loader with a registry and a loader with a plugin map correspond when they hold the
  same buckets, walk the same names and have the same validator, or none, for each name.
\<close>

definition corresponds :: "PluginLoader \<Rightarrow> PluginMapLoader \<Rightarrow> bool" where
  "corresponds L P \<longleftrightarrow>
     loaded L = pluginMap P \<and> exportNames L = pluginNames P \<and>
     list_all (\<lambda>name. case map_of (registered L) name of
                 None \<Rightarrow> False
               | Some plugin \<Rightarrow> validate plugin = map_of (pluginValidators P) name)
       (pluginNames P)"

text \<open>
  A value passes the validation of a name in the loader with a plugin map when the
  validators have no entry for the name or the entry returns without throwing.
\<close>

definition accepts_pm :: "PluginMapLoader \<Rightarrow> string \<Rightarrow> jsval \<Rightarrow> bool" where
  "accepts_pm this name v =
     (case map_of (pluginValidators this) name of None \<Rightarrow> True | Some check \<Rightarrow> check v = None)"



section \<open>Auxiliary facts\<close>

lemma map_of_map_set: "map_of (map_set k v es) = (map_of es)(k \<mapsto> v)"
  by (induction es) (auto simp: fun_eq_iff)

lemma keys_map_set:
  "map_of es k = Some b \<Longrightarrow> map fst (map_set k v es) = map fst es"
  by (induction es) (auto split: if_splits)

lemma load_reduce_registered:
  "registered (fst (load_reduce m ns found L)) = registered L"
  by (induction ns arbitrary: found L) (auto simp: Let_def split: option.splits)

lemma load_reduce_keys:
  "map fst (loaded (fst (load_reduce m ns found L))) = map fst (loaded L)"
  by (induction ns arbitrary: found L) (auto simp: Let_def keys_map_set split: option.splits)

lemma load_reduce_prefix:
  "map_of (loaded L) k = Some b \<Longrightarrow>
     \<exists>ext. map_of (loaded (fst (load_reduce m ns found L))) k = Some (b @ ext)"
proof (induction ns arbitrary: found L b)
  case Nil
  then show ?case by simp
next
  case (Cons n ns)
  show ?case
  proof (cases "truthy (get_prop m n)")
    case False
    with Cons show ?thesis by simp
  next
    case True
    show ?thesis
    proof (cases "map_of (registered L) n")
      case None
      with True Cons.prems show ?thesis by simp
    next
      case (Some plugin)
      show ?thesis
      proof (cases "case validate plugin of None \<Rightarrow> None | Some check \<Rightarrow> check (get_prop m n)")
        case (Some e)
        with True \<open>map_of (registered L) n = Some plugin\<close> Cons.prems show ?thesis by simp
      next
        case None
        note ok = this
        show ?thesis
        proof (cases "map_of (loaded L) n")
          case None
          with ok True \<open>map_of (registered L) n = Some plugin\<close> Cons.prems show ?thesis by simp
        next
          case (Some bucket)
          let ?L = "L\<lparr>loaded := map_set n (bucket @ castArray (get_prop m n)) (loaded L)\<rparr>"
          have step: "load_reduce m (n # ns) found L = load_reduce m ns True ?L"
            using ok True \<open>map_of (registered L) n = Some plugin\<close> Some by simp
          show ?thesis
          proof (cases "k = n")
            case True
            then have "map_of (loaded ?L) k = Some (b @ castArray (get_prop m n))"
              using Some Cons.prems by (simp add: map_of_map_set)
            from Cons.IH[OF this] step show ?thesis by auto
          next
            case False
            then have "map_of (loaded ?L) k = Some b"
              using Cons.prems by (simp add: map_of_map_set)
            from Cons.IH[OF this] step show ?thesis by auto
          qed
        qed
      qed
    qed
  qed
qed

lemma accepts_iff:
  "accepts L n v \<longleftrightarrow>
     (\<exists>plugin. map_of (registered L) n = Some plugin \<and>
        (\<forall>check. validate plugin = Some check \<longrightarrow> check v = None))"
  by (auto simp: accepts_def split: option.splits)

lemma load_reduce_step:
  obtains
    (skip) "\<not> truthy (get_prop m n)"
      "load_reduce m (n # ns) found L = load_reduce m ns found L"
  | (unknown) "truthy (get_prop m n)" "map_of (registered L) n = None"
      "\<exists>msg. load_reduce m (n # ns) found L = (L, Inl (TypeError msg))"
  | (rejected) plugin check e where "truthy (get_prop m n)"
      "map_of (registered L) n = Some plugin" "validate plugin = Some check"
      "check (get_prop m n) = Some e"
      "load_reduce m (n # ns) found L = (L, Inl e)"
  | (no_bucket) plugin where "truthy (get_prop m n)"
      "map_of (registered L) n = Some plugin"
      "\<forall>check. validate plugin = Some check \<longrightarrow> check (get_prop m n) = None"
      "map_of (loaded L) n = None"
      "\<exists>msg. load_reduce m (n # ns) found L = (L, Inl (TypeError msg))"
  | (append) plugin bucket where "truthy (get_prop m n)"
      "map_of (registered L) n = Some plugin"
      "\<forall>check. validate plugin = Some check \<longrightarrow> check (get_prop m n) = None"
      "map_of (loaded L) n = Some bucket"
      "load_reduce m (n # ns) found L =
         load_reduce m ns True
           (L\<lparr>loaded := map_set n (bucket @ castArray (get_prop m n)) (loaded L)\<rparr>)"
proof (cases "truthy (get_prop m n)")
  case False
  then show ?thesis using skip by simp
next
  case True
  note t = this
  show ?thesis
  proof (cases "map_of (registered L) n")
    case None
    then show ?thesis using unknown t by simp
  next
    case (Some plugin)
    note p = this
    show ?thesis
    proof (cases "validate plugin")
      case None
      note v = this
      show ?thesis
      proof (cases "map_of (loaded L) n")
        case None
        then show ?thesis using no_bucket[of plugin] t p v by simp
      next
        case (Some bucket)
        then show ?thesis using append[of plugin bucket] t p v by simp
      qed
    next
      case (Some check)
      note v = this
      show ?thesis
      proof (cases "check (get_prop m n)")
        case (Some e)
        then show ?thesis using rejected[of plugin check e] t p v by simp
      next
        case None
        note c = this
        show ?thesis
        proof (cases "map_of (loaded L) n")
          case None
          then show ?thesis using no_bucket[of plugin] t p v c by simp
        next
          case (Some bucket)
          then show ?thesis using append[of plugin bucket] t p v c by simp
        qed
      qed
    qed
  qed
qed

lemma load_reduce_returned:
  assumes "load_reduce m ns found L = (L', Inr b)"
  shows "(b \<longleftrightarrow> found \<or> (\<exists>n \<in> set ns. truthy (get_prop m n)))
       \<and> (\<forall>n \<in> set ns. truthy (get_prop m n) \<longrightarrow>
              accepts L n (get_prop m n) \<and> map_of (loaded L) n \<noteq> None)
       \<and> (\<not> b \<longrightarrow> L' = L)"
  using assms
proof (induction ns arbitrary: found L)
  case Nil
  then show ?case by auto
next
  case (Cons n ns)
  show ?case
  proof (cases rule: load_reduce_step[of m n ns found L])
    case skip
    with Cons.prems have "load_reduce m ns found L = (L', Inr b)" by simp
    from Cons.IH[OF this] skip(1) show ?thesis by auto
  next
    case unknown
    with Cons.prems show ?thesis by auto
  next
    case (rejected plugin check e)
    with Cons.prems show ?thesis by auto
  next
    case (no_bucket plugin)
    with Cons.prems show ?thesis by auto
  next
    case (append plugin bucket)
    let ?L = "L\<lparr>loaded := map_set n (bucket @ castArray (get_prop m n)) (loaded L)\<rparr>"
    from append Cons.prems have "load_reduce m ns True ?L = (L', Inr b)" by simp
    from Cons.IH[OF this]
    have b: "b" and rest: "\<forall>k \<in> set ns. truthy (get_prop m k) \<longrightarrow>
              accepts ?L k (get_prop m k) \<and> map_of (loaded ?L) k \<noteq> None"
      by auto
    have "accepts L k (get_prop m k) \<and> map_of (loaded L) k \<noteq> None"
      if "k \<in> set ns" "truthy (get_prop m k)" for k
      using rest that append(4) by (cases "k = n") (auto simp: accepts_iff map_of_map_set)
    moreover have "accepts L n (get_prop m n)"
      using append(2,3) by (simp add: accepts_iff)
    ultimately show ?thesis using b append(1,4) by auto
  qed
qed

lemma load_reduce_accepted:
  assumes "distinct ns"
    and "\<forall>n \<in> set ns. truthy (get_prop m n) \<longrightarrow>
           accepts L n (get_prop m n) \<and> map_of (loaded L) n \<noteq> None"
  shows "\<exists>L'. load_reduce m ns found L =
             (L', Inr (found \<or> (\<exists>n \<in> set ns. truthy (get_prop m n))))
       \<and> registered L' = registered L
       \<and> (\<forall>k. map_of (loaded L') k =
              (if k \<in> set ns \<and> truthy (get_prop m k)
               then map_option (\<lambda>bucket. bucket @ castArray (get_prop m k)) (map_of (loaded L) k)
               else map_of (loaded L) k))"
  using assms
proof (induction ns arbitrary: found L)
  case Nil
  then show ?case by simp
next
  case (Cons n ns)
  show ?case
  proof (cases rule: load_reduce_step[of m n ns found L])
    case skip
    from Cons.prems have "\<exists>L'. load_reduce m ns found L =
             (L', Inr (found \<or> (\<exists>n \<in> set ns. truthy (get_prop m n))))
       \<and> registered L' = registered L
       \<and> (\<forall>k. map_of (loaded L') k =
              (if k \<in> set ns \<and> truthy (get_prop m k)
               then map_option (\<lambda>bucket. bucket @ castArray (get_prop m k)) (map_of (loaded L) k)
               else map_of (loaded L) k))"
      by (intro Cons.IH) auto
    with skip show ?thesis by auto
  next
    case unknown
    with Cons.prems show ?thesis by (auto simp: accepts_iff)
  next
    case (rejected plugin check e)
    with Cons.prems show ?thesis by (auto simp: accepts_iff)
  next
    case (no_bucket plugin)
    with Cons.prems show ?thesis by auto
  next
    case (append plugin bucket)
    let ?L = "L\<lparr>loaded := map_set n (bucket @ castArray (get_prop m n)) (loaded L)\<rparr>"
    have n: "n \<notin> set ns" using Cons.prems(1) by simp
    have "\<exists>L'. load_reduce m ns True ?L =
             (L', Inr (True \<or> (\<exists>n \<in> set ns. truthy (get_prop m n))))
       \<and> registered L' = registered ?L
       \<and> (\<forall>k. map_of (loaded L') k =
              (if k \<in> set ns \<and> truthy (get_prop m k)
               then map_option (\<lambda>bucket. bucket @ castArray (get_prop m k)) (map_of (loaded ?L) k)
               else map_of (loaded ?L) k))"
    proof (intro Cons.IH)
      show "distinct ns" using Cons.prems(1) by simp
      show "\<forall>k \<in> set ns. truthy (get_prop m k) \<longrightarrow>
           accepts ?L k (get_prop m k) \<and> map_of (loaded ?L) k \<noteq> None"
        using Cons.prems(2) n by (auto simp: accepts_iff map_of_map_set)
    qed
    then obtain L' where L': "load_reduce m ns True ?L = (L', Inr True)"
       "registered L' = registered L"
       "\<forall>k. map_of (loaded L') k =
              (if k \<in> set ns \<and> truthy (get_prop m k)
               then map_option (\<lambda>bucket. bucket @ castArray (get_prop m k)) (map_of (loaded ?L) k)
               else map_of (loaded ?L) k)"
      by auto
    have "map_of (loaded L') k =
              (if k \<in> set (n # ns) \<and> truthy (get_prop m k)
               then map_option (\<lambda>bucket. bucket @ castArray (get_prop m k)) (map_of (loaded L) k)
               else map_of (loaded L) k)" for k
      using L'(3) n append(1,4) by (cases "k = n") (auto simp: map_of_map_set)
    with L'(1,2) append(1,5) show ?thesis by auto
  qed
qed

lemma settle_all_fulfilled:
  assumes "\<forall>(i, p) \<in> set ord. i < length ps \<and> p = ps ! i"
    and "\<forall>p \<in> set ps. \<exists>v. settlement p = Inr v"
    and "length vals = length ps"
  shows "settle_all ord vals =
     Inr (map (\<lambda>j. if j \<in> fst ` set ord then projr (settlement (ps ! j)) else vals ! j)
            [0..<length ps])"
  using assms
proof (induction ord arbitrary: vals)
  case Nil
  then show ?case by (auto intro: nth_equalityI)
next
  case (Cons ip ord)
  obtain i p where ip: "ip = (i, p)" by (cases ip)
  from Cons.prems ip have i: "i < length ps" and p: "p = ps ! i" by auto
  with Cons.prems(2) obtain v where v: "settlement p = Inr v"
    by (metis nth_mem)
  have "settle_all ord (vals[i := v]) =
     Inr (map (\<lambda>j. if j \<in> fst ` set ord then projr (settlement (ps ! j)) else vals[i := v] ! j)
            [0..<length ps])"
    using Cons.prems by (intro Cons.IH) auto
  moreover have "map (\<lambda>j. if j \<in> fst ` set ord then projr (settlement (ps ! j)) else vals[i := v] ! j)
            [0..<length ps] = map (\<lambda>j. if j \<in> fst ` set (ip # ord) then projr (settlement (ps ! j)) else vals ! j)
            [0..<length ps]"
    using i p v Cons.prems(3) ip by (auto simp: nth_list_update)
  ultimately show ?case using v ip by simp
qed

lemma Promise_all_fulfilled:
  assumes "\<forall>p \<in> set ps. \<exists>v. settlement p = Inr v"
  shows "Promise_all ps = Inr (map (\<lambda>p. projr (settlement p)) ps)"
proof -
  let ?ord = "sort_key (\<lambda>(i, p). settles_at p) (enumerate 0 ps)"
  have set: "set ?ord = set (enumerate 0 ps)" by simp
  have "\<forall>(i, p) \<in> set ?ord. i < length ps \<and> p = ps ! i"
    unfolding set by (auto simp: in_set_enumerate_eq)
  then have "settle_all ?ord (replicate (length ps) Undefined) =
     Inr (map (\<lambda>j. if j \<in> fst ` set ?ord then projr (settlement (ps ! j))
                    else replicate (length ps) Undefined ! j) [0..<length ps])"
    using assms by (intro settle_all_fulfilled) auto
  also have "map (\<lambda>j. if j \<in> fst ` set ?ord then projr (settlement (ps ! j))
                    else replicate (length ps) Undefined ! j) [0..<length ps]
         = map (\<lambda>j. projr (settlement (ps ! j))) [0..<length ps]"
  proof -
    have "j \<in> fst ` set ?ord" if "j < length ps" for j
    proof -
      from that have "(j, ps ! j) \<in> set (enumerate 0 ps)"
        by (simp add: in_set_enumerate_eq)
      then show ?thesis unfolding set by force
    qed
    then show ?thesis by simp
  qed
  also have "\<dots> = map (\<lambda>p. projr (settlement p)) ps"
    by (simp add: map_nth map_equality_iff)
  finally show ?thesis by (simp add: Promise_all_def)
qed

lemma Promise_all_resolved:
  assumes "list_all2 (\<lambda>hook obj. settlement (resolve_hook hook) = Inr obj) hooks objs"
  shows "Promise_all (map resolve_hook hooks) = Inr objs"
proof -
  have "\<forall>p \<in> set (map resolve_hook hooks). \<exists>v. settlement p = Inr v"
    using assms by (auto simp: list_all2_conv_all_nth in_set_conv_nth)
  then have "Promise_all (map resolve_hook hooks)
      = Inr (map (\<lambda>p. projr (settlement p)) (map resolve_hook hooks))"
    by (rule Promise_all_fulfilled)
  also have "map (\<lambda>p. projr (settlement p)) (map resolve_hook hooks) = objs"
    using assms by (induction rule: list_all2_induct) auto
  finally show ?thesis .
qed

lemma foldl_merge_hook:
  "foldl merge_hook acc hooks =
     \<lparr>beforeAll = beforeAll acc @ concat (map (\<lambda>h. castArray (lifecycle ''beforeAll'' h)) hooks),
      beforeEach = beforeEach acc @ concat (map (\<lambda>h. castArray (lifecycle ''beforeEach'' h)) hooks),
      afterAll = afterAll acc @ concat (map (\<lambda>h. castArray (lifecycle ''afterAll'' h)) hooks),
      afterEach = afterEach acc @ concat (map (\<lambda>h. castArray (lifecycle ''afterEach'' h)) hooks)\<rparr>"
  by (induction hooks arbitrary: acc) (simp_all add: merge_hook_def)

lemma mochaHooks_finalize_resolved:
  assumes "rootHooks \<noteq> []"
    and "list_all2 (\<lambda>hook obj. settlement (resolve_hook hook) = Inr obj) rootHooks objs"
  shows "mochaHooks_finalize rootHooks =
     Inr (Obj [(''beforeAll'', Arr (concat (map (\<lambda>h. castArray (lifecycle ''beforeAll'' h)) objs))),
               (''beforeEach'', Arr (concat (map (\<lambda>h. castArray (lifecycle ''beforeEach'' h)) objs))),
               (''afterAll'', Arr (concat (map (\<lambda>h. castArray (lifecycle ''afterAll'' h)) objs))),
               (''afterEach'', Arr (concat (map (\<lambda>h. castArray (lifecycle ''afterEach'' h)) objs)))])"
  using assms(1) Promise_all_resolved[OF assms(2)]
  by (simp add: mochaHooks_finalize_def foldl_merge_hook no_hooks_def hook_object_def)

lemma finalize_entries_provenance:
  assumes "finalize_entries L es out = Inr out'" and "map_of out' k = Some v"
  shows "map_of out k = Some v \<or>
     (\<exists>name impls plugin aggregate. (name, impls) \<in> set es \<and> impls \<noteq> [] \<and>
        map_of (registered L) name = Some plugin \<and> finalize plugin = Some aggregate \<and>
        aggregate impls = Inr v \<and> k = option_key plugin name)"
  using assms
proof (induction es arbitrary: out)
  case Nil
  then show ?case by simp
next
  case (Cons e es)
  obtain name impls where e: "e = (name, impls)" by (cases e)
  show ?case
  proof (cases "impls = []")
    case True
    with Cons.prems e have "finalize_entries L es out = Inr out'" by simp
    from Cons.IH[OF this Cons.prems(2)] show ?thesis by auto
  next
    case False
    note ne = this
    show ?thesis
    proof (cases "map_of (registered L) name")
      case None
      with Cons.prems e ne show ?thesis by simp
    next
      case (Some plugin)
      note p = this
      show ?thesis
      proof (cases "finalize plugin")
        case None
        with Cons.prems e ne p have "finalize_entries L es out = Inr out'" by simp
        from Cons.IH[OF this Cons.prems(2)] show ?thesis by auto
      next
        case (Some aggregate)
        note a = this
        show ?thesis
        proof (cases "aggregate impls")
          case (Inl err)
          with Cons.prems e ne p a show ?thesis by simp
        next
          case (Inr w)
          with Cons.prems e ne p a
          have "finalize_entries L es (map_set (option_key plugin name) w out) = Inr out'"
            by simp
          from Cons.IH[OF this Cons.prems(2)]
          show ?thesis
          proof
            assume "map_of (map_set (option_key plugin name) w out) k = Some v"
            then have "map_of out k = Some v \<or> (k = option_key plugin name \<and> w = v)"
              by (auto simp: map_of_map_set split: if_splits)
            then show ?thesis using e ne p a Inr by auto
          next
            assume "\<exists>name impls plugin aggregate. (name, impls) \<in> set es \<and> impls \<noteq> [] \<and>
              map_of (registered L) name = Some plugin \<and> finalize plugin = Some aggregate \<and>
              aggregate impls = Inr v \<and> k = option_key plugin name"
            then show ?thesis by auto
          qed
        qed
      qed
    qed
  qed
qed

lemma finalize_entries_empty_bucket:
  "finalize_entries L ((name, []) # rest) out = finalize_entries L rest out"
  by simp

lemma create_None:
  "create None = Inr \<lparr>registered = map (\<lambda>p. (exportName p, p)) MochaPlugins,
      loaded = [(''mochaHooks'', []), (''mochaGlobalSetup'', []), (''mochaGlobalTeardown'', [])]\<rparr>"
  by (simp add: create_def new_PluginLoader_def MochaPlugins_def register_def map_has_def
      exportNames_def)

lemma load_registered: "registered (fst (load L m)) = registered L"
  by (simp add: load_def load_reduce_registered)

lemma load_keys: "map fst (loaded (fst (load L m))) = map fst (loaded L)"
  by (simp add: load_def load_reduce_keys)

lemma load_all_Cons:
  "load_all L (m # ms) =
     (fst (load_all (fst (load L m)) ms), snd (load L m) # snd (load_all (fst (load L m)) ms))"
  by (simp split: prod.splits)

lemma load_all_registered: "registered (fst (load_all L ms)) = registered L"
  by (induction ms arbitrary: L) (simp_all add: load_all_Cons load_registered del: load_all.simps(2))

lemma load_all_keys: "map fst (loaded (fst (load_all L ms))) = map fst (loaded L)"
  by (induction ms arbitrary: L) (simp_all add: load_all_Cons load_keys del: load_all.simps(2))

lemma load_returned_buckets:
  assumes "load L m = (L', Inr found)" and "distinct (exportNames L)"
    and "k \<in> set (exportNames L)"
  shows "map_of (loaded L') k = map_option (\<lambda>bucket. bucket @ contribution k m) (map_of (loaded L) k)"
proof (cases "truthy m \<and> typeof m = TObject")
  case False
  with assms(1) show ?thesis
    by (auto simp: load_def contribution_def option.map_ident)
next
  case True
  with assms(1) have red: "load_reduce m (exportNames L) False L = (L', Inr found)"
    by (simp add: load_def)
  from load_reduce_returned[OF red]
  have ok: "\<forall>n \<in> set (exportNames L). truthy (get_prop m n) \<longrightarrow>
      accepts L n (get_prop m n) \<and> map_of (loaded L) n \<noteq> None"
    by blast
  from load_reduce_accepted[OF assms(2) ok, of False] red
  have "map_of (loaded L') k =
          (if k \<in> set (exportNames L) \<and> truthy (get_prop m k)
           then map_option (\<lambda>bucket. bucket @ castArray (get_prop m k)) (map_of (loaded L) k)
           else map_of (loaded L) k)"
    by auto
  with True assms(3) show ?thesis
    by (auto simp: contribution_def option.map_ident)
qed

lemma load_all_returned_buckets:
  assumes "load_all L ms = (L', results)" and "\<forall>r \<in> set results. \<exists>found. r = Inr found"
    and "distinct (exportNames L)" and "k \<in> set (exportNames L)"
  shows "map_of (loaded L') k =
     map_option (\<lambda>bucket. bucket @ concat (map (contribution k) ms)) (map_of (loaded L) k)"
  using assms
proof (induction ms arbitrary: L results)
  case Nil
  then show ?case by (simp add: option.map_ident)
next
  case (Cons m ms)
  obtain L1 r where l: "load L m = (L1, r)" by (cases "load L m")
  obtain L2 rs where "load_all L1 ms = (L2, rs)" by (cases "load_all L1 ms")
  with Cons.prems(1) l have la: "load_all L1 ms = (L', rs)" and eq: "results = r # rs"
    by auto
  with Cons.prems(2) obtain found where r: "r = Inr found" by auto
  have reg: "exportNames L1 = exportNames L"
    using load_registered[of L m] l by (simp add: exportNames_def)
  have "map_of (loaded L') k =
     map_option (\<lambda>bucket. bucket @ concat (map (contribution k) ms)) (map_of (loaded L1) k)"
    using Cons.prems(2,3,4) eq reg by (intro Cons.IH[OF la]) auto
  moreover have "map_of (loaded L1) k =
     map_option (\<lambda>bucket. bucket @ contribution k m) (map_of (loaded L) k)"
    using load_returned_buckets[OF l[unfolded r] Cons.prems(3,4)] .
  ultimately show ?case by (simp add: option.map_comp comp_def)
qed

lemma builtin_finalize:
  assumes "registered L = map (\<lambda>p. (exportName p, p)) MochaPlugins"
    and "map fst (loaded L) = map exportName MochaPlugins"
  shows "\<exists>rootHooks. map_of (loaded L) ''mochaHooks'' = Some rootHooks \<and>
     snd (PluginLoader_finalize L) =
       (if rootHooks = [] then Inr []
        else case mochaHooks_finalize rootHooks of
               Inl e \<Rightarrow> Inl e
             | Inr v \<Rightarrow> Inr [(''rootHooks'', v)])"
proof -
  from assms(2) obtain b1 b2 b3 where
    l: "loaded L = [(''mochaHooks'', b1), (''mochaGlobalSetup'', b2), (''mochaGlobalTeardown'', b3)]"
    by (auto simp: MochaPlugins_def map_eq_Cons_conv)
  show ?thesis
    using assms(1) 
    by (auto simp: l PluginLoader_finalize_def MochaPlugins_def option_key_def split: sum.splits)
qed

lemma map_has_iff: "map_has es k \<longleftrightarrow> k \<in> fst ` set es"
  by (simp add: map_has_def map_of_eq_None_iff)

lemma map_set_fresh: "k \<notin> fst ` set es \<Longrightarrow> map_set k v es = es @ [(k, v)]"
  by (induction es) auto

lemma register_fresh:
  "exportName p \<notin> fst ` set (registered L) \<Longrightarrow>
     register L p = Inr (L\<lparr>registered := registered L @ [(exportName p, p)]\<rparr>)"
  by (simp add: register_def map_has_iff map_set_fresh)

lemma register_conflict:
  "exportName p \<in> fst ` set (registered L) \<Longrightarrow>
     register L p = Inl (Error (''plugin name conflict: '' @ exportName p))"
  by (simp add: register_def map_has_iff)

lemma register_each_distinct:
  assumes "distinct (map fst (registered L) @ map exportName defs)"
  shows "register_each L defs =
     Inr (L\<lparr>registered := registered L @ map (\<lambda>p. (exportName p, p)) defs\<rparr>)"
  using assms
proof (induction defs arbitrary: L)
  case Nil
  then show ?case by simp
next
  case (Cons p defs)
  from Cons.prems have fresh: "exportName p \<notin> fst ` set (registered L)" by auto
  let ?L = "L\<lparr>registered := registered L @ [(exportName p, p)]\<rparr>"
  have "register_each ?L defs =
     Inr (?L\<lparr>registered := registered ?L @ map (\<lambda>p. (exportName p, p)) defs\<rparr>)"
    using Cons.prems by (intro Cons.IH) auto
  then show ?case by (simp add: register_fresh[OF fresh])
qed

lemma register_each_conflict:
  assumes "\<not> distinct (map fst (registered L) @ map exportName defs)"
    and "distinct (map fst (registered L))"
  shows "\<exists>p \<in> set defs. register_each L defs =
     Inl (Error (''plugin name conflict: '' @ exportName p))"
  using assms
proof (induction defs arbitrary: L)
  case Nil
  then show ?case by simp
next
  case (Cons p defs)
  show ?case
  proof (cases "exportName p \<in> fst ` set (registered L)")
    case True
    then show ?thesis by (simp add: register_conflict)
  next
    case False
    let ?L = "L\<lparr>registered := registered L @ [(exportName p, p)]\<rparr>"
    have "\<exists>q \<in> set defs. register_each ?L defs =
       Inl (Error (''plugin name conflict: '' @ exportName q))"
      using Cons.prems False by (intro Cons.IH) auto
    then show ?thesis by (simp add: register_fresh[OF False])
  qed
qed

lemma load_reduce_nothing_found:
  "list_all (\<lambda>name. \<not> truthy (get_prop m name)) ns \<Longrightarrow>
     load_reduce m ns found L = (L, Inr found)"
  by (induction ns) simp_all

lemma load_reduce_sim:
  assumes "loaded L = pluginMap P"
    and "\<forall>n \<in> set ns. \<exists>plugin. map_of (registered L) n = Some plugin \<and>
            validate plugin = map_of (pluginValidators P) n"
  shows "snd (load_reduce m ns found L) = snd (load_reduce_pm m ns found P)
       \<and> loaded (fst (load_reduce m ns found L)) = pluginMap (fst (load_reduce_pm m ns found P))
       \<and> registered (fst (load_reduce m ns found L)) = registered L
       \<and> pluginNames (fst (load_reduce_pm m ns found P)) = pluginNames P
       \<and> pluginValidators (fst (load_reduce_pm m ns found P)) = pluginValidators P"
  using assms
proof (induction ns arbitrary: found L P)
  case Nil
  then show ?case by simp
next
  case (Cons n ns)
  from Cons.prems(2) obtain plugin where p: "map_of (registered L) n = Some plugin"
    "validate plugin = map_of (pluginValidators P) n" by auto
  have rest: "\<forall>k \<in> set ns. \<exists>plugin. map_of (registered L) k = Some plugin \<and>
            validate plugin = map_of (pluginValidators P) k"
    using Cons.prems(2) by simp
  show ?case
  proof (cases "truthy (get_prop m n)")
    case False
    with Cons.IH[OF Cons.prems(1) rest, of found] show ?thesis by simp
  next
    case True
    note t = this
    show ?thesis
    proof (cases "case map_of (pluginValidators P) n of None \<Rightarrow> None
                  | Some check \<Rightarrow> check (get_prop m n)")
      case (Some e)
      with t p Cons.prems(1) show ?thesis by simp
    next
      case None
      note ok = this
      show ?thesis
      proof (cases "map_of (pluginMap P) n")
        case None
        with t p ok Cons.prems(1) show ?thesis by simp
      next
        case (Some bucket)
        let ?L = "L\<lparr>loaded := map_set n (bucket @ castArray (get_prop m n)) (loaded L)\<rparr>"
        let ?P = "P\<lparr>pluginMap := map_set n (bucket @ castArray (get_prop m n)) (pluginMap P)\<rparr>"
        have 1: "loaded ?L = pluginMap ?P" using Cons.prems(1) by simp
        have 2: "\<forall>k \<in> set ns. \<exists>plugin. map_of (registered ?L) k = Some plugin \<and>
            validate plugin = map_of (pluginValidators ?P) k"
          using rest by simp
        have "load_reduce m (n # ns) found L = load_reduce m ns True ?L"
          using t p ok Some Cons.prems(1) by simp
        moreover have "load_reduce_pm m (n # ns) found P = load_reduce_pm m ns True ?P"
          using t ok Some by simp
        ultimately show ?thesis using Cons.IH[OF 1 2, of True] by simp
      qed
    qed
  qed
qed

lemma corresponds_load:
  assumes "corresponds L P"
  shows "snd (load L m) = snd (load_pm P m) \<and> corresponds (fst (load L m)) (fst (load_pm P m))"
proof (cases "truthy m \<and> typeof m = TObject")
  case False
  with assms show ?thesis by (auto simp: load_def load_pm_def)
next
  case True
  from assms have 1: "loaded L = pluginMap P" and names: "exportNames L = pluginNames P"
    and 2: "\<forall>n \<in> set (exportNames L). \<exists>plugin. map_of (registered L) n = Some plugin \<and>
            validate plugin = map_of (pluginValidators P) n"
    by (auto simp: corresponds_def list_all_iff split: option.splits)
  let ?L = "fst (load_reduce m (pluginNames P) False L)"
  let ?P = "fst (load_reduce_pm m (pluginNames P) False P)"
  from load_reduce_sim[OF 1 2, of m False] names
  have res: "snd (load_reduce m (pluginNames P) False L) = snd (load_reduce_pm m (pluginNames P) False P)"
    and l: "loaded ?L = pluginMap ?P" and r: "registered ?L = registered L"
    and n: "pluginNames ?P = pluginNames P" and v: "pluginValidators ?P = pluginValidators P"
    by simp_all
  have "corresponds ?L ?P"
    unfolding corresponds_def exportNames_def l r n v
    using assms by (simp add: corresponds_def exportNames_def)
  with res True names show ?thesis
    by (simp add: load_def load_pm_def)
qed

lemma corresponds_load_all:
  assumes "corresponds L P"
  shows "snd (load_all L ms) = snd (load_all_pm P ms)
       \<and> corresponds (fst (load_all L ms)) (fst (load_all_pm P ms))"
  using assms
proof (induction ms arbitrary: L P)
  case Nil
  then show ?case by simp
next
  case (Cons m ms)
  from corresponds_load[OF Cons.prems, of m]
  have r: "snd (load L m) = snd (load_pm P m)"
    and c: "corresponds (fst (load L m)) (fst (load_pm P m))" by auto
  from Cons.IH[OF c] r show ?case
    by (simp add: split_beta)
qed

lemma builtin_corresponds:
  "corresponds \<lparr>registered = map (\<lambda>p. (exportName p, p)) MochaPlugins,
      loaded = [(''mochaHooks'', []), (''mochaGlobalSetup'', []), (''mochaGlobalTeardown'', [])]\<rparr>
     (create_pm None None)"
proof -
  have "mochaHooks_validate = (\<lambda>value.
         if isArray value \<or> (typeof value \<noteq> TFunction \<and> typeof value \<noteq> TObject)
         then Some (createUnsupportedError
           (PLUGIN_ROOT_HOOKS @
            '' must be an object or a function returning (or fulfilling with) an object''))
         else None)"
    by (simp add: fun_eq_iff mochaHooks_validate_def PLUGIN_ROOT_HOOKS_def)
  then show ?thesis
    by (simp add: corresponds_def create_pm_def new_PluginMapLoader_def PLUGIN_NAMES_def
        PLUGIN_ROOT_HOOKS_def PLUGIN_GLOBAL_SETUP_def PLUGIN_GLOBAL_TEARDOWN_def
        PluginValidators_def MochaPlugins_def exportNames_def)
qed

lemma aggregate_agrees:
  "rootHooks \<noteq> [] \<Longrightarrow> snd (aggregateRootHooks (Some rootHooks)) = mochaHooks_finalize rootHooks"
  by (simp add: aggregateRootHooks_def mochaHooks_finalize_def split: sum.splits)

lemma load_reduce_append:
  "load_reduce m (xs @ ys) found L =
     (case load_reduce m xs found L of
        (L1, Inl e) \<Rightarrow> (L1, Inl e)
      | (L1, Inr found1) \<Rightarrow> load_reduce m ys found1 L1)"
  by (induction xs arbitrary: found L) (auto simp: Let_def split: option.splits)

lemma load_interrupted:
  assumes obj: "truthy m \<and> typeof m = TObject"
    and names: "exportNames L = earlier @ failing # later"
    and dist: "distinct earlier"
    and ok: "\<forall>name \<in> set earlier. truthy (get_prop m name) \<longrightarrow>
          accepts L name (get_prop m name) \<and> map_of (loaded L) name \<noteq> None"
    and bad: "truthy (get_prop m failing)" "map_of (registered L) failing = Some plugin"
      "validate plugin = Some check" "check (get_prop m failing) = Some e"
  shows "\<exists>L'. load L m = (L', Inl e) \<and> registered L' = registered L \<and>
     (\<forall>name. map_of (loaded L') name =
        (if name \<in> set earlier
         then map_option (\<lambda>bucket. bucket @ contribution name m) (map_of (loaded L) name)
         else map_of (loaded L) name))"
proof -
  from load_reduce_accepted[OF dist ok, of False] obtain L1 where
    1: "load_reduce m earlier False L = (L1, Inr (\<exists>n \<in> set earlier. truthy (get_prop m n)))"
    and r: "registered L1 = registered L"
    and b: "\<forall>k. map_of (loaded L1) k =
              (if k \<in> set earlier \<and> truthy (get_prop m k)
               then map_option (\<lambda>bucket. bucket @ castArray (get_prop m k)) (map_of (loaded L) k)
               else map_of (loaded L) k)"
    by auto
  have 2: "load_reduce m (failing # later) found L1 = (L1, Inl e)" for found
    using bad r by simp
  have "load L m = (L1, Inl e)"
    using obj names 1 2 by (simp add: load_def load_reduce_append)
  moreover have "map_of (loaded L1) name =
        (if name \<in> set earlier
         then map_option (\<lambda>bucket. bucket @ contribution name m) (map_of (loaded L) name)
         else map_of (loaded L) name)" for name
    using b obj by (auto simp: contribution_def option.map_ident)
  ultimately show ?thesis using r by blast
qed

lemma corresponds_exists:
  "\<exists>L. corresponds L P \<and>
     (\<forall>name \<in> set (pluginNames P). \<forall>v. accepts L name v = accepts_pm P name v) \<and>
     (\<forall>name \<in> set (pluginNames P). \<exists>plugin. map_of (registered L) name = Some plugin \<and>
          validate plugin = map_of (pluginValidators P) name)"
proof -
  define mk where "mk = (\<lambda>n. \<lparr>exportName = n, optionName = None,
     validate = map_of (pluginValidators P) n, finalize = None\<rparr>)"
  define L where "L = \<lparr>registered = map (\<lambda>n. (n, mk n)) (pluginNames P), loaded = pluginMap P\<rparr>"
  have reg: "map_of (registered L) n = Some (mk n)" if "n \<in> set (pluginNames P)" for n
    using that unfolding L_def by (induction "pluginNames P") (auto simp: map_of_map_restrict)
  have names: "exportNames L = pluginNames P"
    by (simp add: exportNames_def L_def comp_def)
  have "corresponds L P"
    using reg names by (auto simp: corresponds_def list_all_iff mk_def L_def)
  moreover have "accepts L name v = accepts_pm P name v" if "name \<in> set (pluginNames P)" for name v
    using reg[OF that] by (simp add: accepts_def accepts_pm_def mk_def)
  moreover have "\<exists>plugin. map_of (registered L) name = Some plugin \<and>
          validate plugin = map_of (pluginValidators P) name" if "name \<in> set (pluginNames P)" for name
    using reg[OF that] by (simp add: mk_def)
  ultimately show ?thesis by blast
qed

lemma load_pm_interrupted:
  assumes obj: "truthy m \<and> typeof m = TObject"
    and names: "pluginNames P = earlier @ failing # later"
    and dist: "distinct earlier"
    and ok: "\<forall>name \<in> set earlier. truthy (get_prop m name) \<longrightarrow>
          accepts_pm P name (get_prop m name) \<and> map_of (pluginMap P) name \<noteq> None"
    and bad: "truthy (get_prop m failing)"
      "map_of (pluginValidators P) failing = Some check" "check (get_prop m failing) = Some e"
  shows "\<exists>P'. load_pm P m = (P', Inl e) \<and>
     (\<forall>name. map_of (pluginMap P') name =
        (if name \<in> set earlier
         then map_option (\<lambda>bucket. bucket @ contribution name m) (map_of (pluginMap P) name)
         else map_of (pluginMap P) name))"
proof -
  from corresponds_exists[of P] obtain L where c: "corresponds L P"
    and acc: "\<forall>name \<in> set (pluginNames P). \<forall>v. accepts L name v = accepts_pm P name v"
    and reg: "\<forall>name \<in> set (pluginNames P). \<exists>plugin. map_of (registered L) name = Some plugin \<and>
          validate plugin = map_of (pluginValidators P) name"
    by blast
  from c have n: "exportNames L = earlier @ failing # later" and l: "loaded L = pluginMap P"
    using names by (simp_all add: corresponds_def)
  from reg names bad(2) obtain plugin where p: "map_of (registered L) failing = Some plugin"
    "validate plugin = Some check" by auto
  have ok': "\<forall>name \<in> set earlier. truthy (get_prop m name) \<longrightarrow>
          accepts L name (get_prop m name) \<and> map_of (loaded L) name \<noteq> None"
    using ok acc names l by auto
  from load_interrupted[OF obj n dist ok' bad(1) p bad(3)] obtain L' where
    L': "load L m = (L', Inl e)" "\<forall>name. map_of (loaded L') name =
        (if name \<in> set earlier
         then map_option (\<lambda>bucket. bucket @ contribution name m) (map_of (loaded L) name)
         else map_of (loaded L) name)"
    by blast
  from corresponds_load[OF c, of m] L'(1)
  have "snd (load_pm P m) = Inl e" and "loaded L' = pluginMap (fst (load_pm P m))"
    by (simp_all add: corresponds_def)
  with L'(2) l show ?thesis
    by (cases "load_pm P m") auto
qed

lemma builtin_names:
  "exportNames \<lparr>registered = map (\<lambda>p. (exportName p, p)) MochaPlugins, loaded = bs\<rparr> =
     [''mochaHooks'', ''mochaGlobalSetup'', ''mochaGlobalTeardown'']"
  by (simp add: exportNames_def MochaPlugins_def)

lemma finalize_pm_returned:
  assumes "finalize_pm P = (P', printed, Inr out)"
  shows "\<exists>hooks gsetup gteardown.
      map_of (pluginMap P) PLUGIN_ROOT_HOOKS = Some hooks \<and>
      map_of (pluginMap P) PLUGIN_GLOBAL_SETUP = Some gsetup \<and>
      map_of (pluginMap P) PLUGIN_GLOBAL_TEARDOWN = Some gteardown \<and>
      P' = P \<and>
      (hooks = [] \<longrightarrow> printed = [] \<and> map_of out ''rootHooks'' = None) \<and>
      (hooks \<noteq> [] \<longrightarrow> (\<exists>v. snd (aggregateRootHooks (Some hooks)) = Inr v \<and>
                         map_of out ''rootHooks'' = Some v)) \<and>
      map_of out ''globalSetup'' = (if gsetup = [] then None else Some (Arr gsetup)) \<and>
      map_of out ''globalTeardown'' = (if gteardown = [] then None else Some (Arr gteardown))"
proof -
  from assms obtain hooks where h: "map_of (pluginMap P) PLUGIN_ROOT_HOOKS = Some hooks"
    by (cases "map_of (pluginMap P) PLUGIN_ROOT_HOOKS") (auto simp: finalize_pm_def)
  define stage where "stage =
     (if hooks \<noteq> []
      then (case aggregateRootHooks (Some hooks) of
              (out, Inl e) \<Rightarrow> (out, Inl e)
            | (out, Inr v) \<Rightarrow> (out, Inr (map_set ''rootHooks'' v [])))
      else ([], Inr []))"
  obtain pr r where f: "stage = (pr, r)" by (cases stage)
  from assms h f obtain out1 where r: "r = Inr out1"
    by (cases r) (auto simp: finalize_pm_def stage_def[symmetric])
  from assms h f r obtain gsetup where s: "map_of (pluginMap P) PLUGIN_GLOBAL_SETUP = Some gsetup"
    by (cases "map_of (pluginMap P) PLUGIN_GLOBAL_SETUP")
       (auto simp: finalize_pm_def stage_def[symmetric])
  from assms h f r s obtain gteardown where
    t: "map_of (pluginMap P) PLUGIN_GLOBAL_TEARDOWN = Some gteardown"
    by (cases "map_of (pluginMap P) PLUGIN_GLOBAL_TEARDOWN")
       (auto simp: finalize_pm_def stage_def[symmetric] Let_def)
  from assms h f r s t have res: "P' = P" "printed = pr"
    "out = (let o2 = (if gsetup \<noteq> [] then map_set ''globalSetup'' (Arr gsetup) out1 else out1)
            in if gteardown \<noteq> [] then map_set ''globalTeardown'' (Arr gteardown) o2 else o2)"
    by (auto simp: finalize_pm_def stage_def[symmetric] Let_def)
  have o1: "(hooks = [] \<longrightarrow> pr = [] \<and> out1 = []) \<and>
     (hooks \<noteq> [] \<longrightarrow> (\<exists>v. snd (aggregateRootHooks (Some hooks)) = Inr v \<and>
         out1 = [(''rootHooks'', v)]))"
    using f r by (auto simp: stage_def split: prod.splits sum.splits if_splits)
  have "map_of out ''rootHooks'' = map_of out1 ''rootHooks''"
    "map_of out ''globalSetup'' = (if gsetup = [] then None else Some (Arr gsetup))"
    "map_of out ''globalTeardown'' = (if gteardown = [] then None else Some (Arr gteardown))"
    using o1 by (auto simp: res(3) Let_def map_of_map_set)
  with h s t res(1,2) o1 show ?thesis by auto
qed

lemma builtin_finalize_keys:
  assumes "create None = Inr L0"
    and "snd (PluginLoader_finalize (fst (load_all L0 modules))) = Inr out"
  shows "\<exists>hooks. map_of (loaded (fst (load_all L0 modules))) ''mochaHooks'' = Some hooks \<and>
     (hooks = [] \<longrightarrow> out = []) \<and>
     (hooks \<noteq> [] \<longrightarrow> (\<exists>v. mochaHooks_finalize hooks = Inr v \<and> out = [(''rootHooks'', v)]))"
proof -
  let ?L = "fst (load_all L0 modules)"
  from assms(1) have L0: "registered L0 = map (\<lambda>p. (exportName p, p)) MochaPlugins"
    "loaded L0 = [(''mochaHooks'', []), (''mochaGlobalSetup'', []), (''mochaGlobalTeardown'', [])]"
    by (auto simp: create_None)
  have reg: "registered ?L = map (\<lambda>p. (exportName p, p)) MochaPlugins"
    using load_all_registered[of L0 modules] L0 by simp
  have keys: "map fst (loaded ?L) = map exportName MochaPlugins"
    using load_all_keys[of L0 modules] L0 by (simp add: MochaPlugins_def)
  from builtin_finalize[OF reg keys] assms(2) show ?thesis
    by (auto split: if_splits sum.splits)
qed

lemma finalize_provenance:
  assumes "PluginLoader_finalize L = (L', Inr out)" and "map_of out key = Some v"
  shows "\<exists>name impls plugin aggregate. (name, impls) \<in> set (loaded L) \<and> impls \<noteq> [] \<and>
        map_of (registered L) name = Some plugin \<and> finalize plugin = Some aggregate \<and>
        aggregate impls = Inr v \<and> key = option_key plugin name"
proof -
  from assms(1) have "finalize_entries L (loaded L) [] = Inr out"
    by (auto simp: PluginLoader_finalize_def)
  from finalize_entries_provenance[OF this assms(2)] show ?thesis by simp
qed

lemma create_pm_default:
  "create_pm None None =
     \<lparr>pluginNames = [''mochaHooks'', ''mochaGlobalSetup'', ''mochaGlobalTeardown''],
      pluginMap = [(''mochaHooks'', []), (''mochaGlobalSetup'', []), (''mochaGlobalTeardown'', [])],
      pluginValidators = PluginValidators\<rparr>"
  by (simp add: create_pm_def new_PluginMapLoader_def PLUGIN_NAMES_def PLUGIN_ROOT_HOOKS_def
      PLUGIN_GLOBAL_SETUP_def PLUGIN_GLOBAL_TEARDOWN_def)

lemma load_pm_global_setup:
  "load_pm (create_pm None None) (Obj [(''mochaGlobalSetup'', Fun ''prepare'' (Returns Undefined))])
     = (\<lparr>pluginNames = [''mochaHooks'', ''mochaGlobalSetup'', ''mochaGlobalTeardown''],
         pluginMap = [(''mochaHooks'', []),
                      (''mochaGlobalSetup'', [Fun ''prepare'' (Returns Undefined)]),
                      (''mochaGlobalTeardown'', [])],
         pluginValidators = PluginValidators\<rparr>, Inr True)"
  by (simp add: create_pm_default load_pm_def)
     (simp add: PluginValidators_def PLUGIN_ROOT_HOOKS_def PLUGIN_GLOBAL_SETUP_def
        PLUGIN_GLOBAL_TEARDOWN_def createFunctionArrayValidator_def)

lemma load_global_setup:
  "load \<lparr>registered = map (\<lambda>p. (exportName p, p)) MochaPlugins,
          loaded = [(''mochaHooks'', []), (''mochaGlobalSetup'', []), (''mochaGlobalTeardown'', [])]\<rparr>
      (Obj [(''mochaGlobalSetup'', Fun ''prepare'' (Returns Undefined))])
   = (\<lparr>registered = map (\<lambda>p. (exportName p, p)) MochaPlugins,
          loaded = [(''mochaHooks'', []),
                    (''mochaGlobalSetup'', [Fun ''prepare'' (Returns Undefined)]),
                    (''mochaGlobalTeardown'', [])]\<rparr>, Inr True)"
  by (simp add: load_def builtin_names)
     (simp add: MochaPlugins_def createFunctionArrayValidator_def)

lemma shared_option_name_create:
  "create (Some (MochaPlugins @
      [\<lparr>exportName = ''extraHooks'', optionName = Some ''rootHooks'',
        validate = None, finalize = Some mochaHooks_finalize\<rparr>]))
   = Inr \<lparr>registered = map (\<lambda>p. (exportName p, p)) (MochaPlugins @
             [\<lparr>exportName = ''extraHooks'', optionName = Some ''rootHooks'',
               validate = None, finalize = Some mochaHooks_finalize\<rparr>]),
          loaded = [(''mochaHooks'', []), (''mochaGlobalSetup'', []),
                    (''mochaGlobalTeardown'', []), (''extraHooks'', [])]\<rparr>"
  by (simp add: create_def new_PluginLoader_def MochaPlugins_def register_def map_has_def
      exportNames_def)

lemma shared_option_name_load:
  "load \<lparr>registered = map (\<lambda>p. (exportName p, p)) (MochaPlugins @
             [\<lparr>exportName = ''extraHooks'', optionName = Some ''rootHooks'',
               validate = None, finalize = Some mochaHooks_finalize\<rparr>]),
          loaded = [(''mochaHooks'', []), (''mochaGlobalSetup'', []),
                    (''mochaGlobalTeardown'', []), (''extraHooks'', [])]\<rparr>
     (Obj [(''extraHooks'', Obj [(''beforeAll'', Fun ''a'' (Returns Undefined))])])
   = (\<lparr>registered = map (\<lambda>p. (exportName p, p)) (MochaPlugins @
             [\<lparr>exportName = ''extraHooks'', optionName = Some ''rootHooks'',
               validate = None, finalize = Some mochaHooks_finalize\<rparr>]),
          loaded = [(''mochaHooks'', []), (''mochaGlobalSetup'', []),
                    (''mochaGlobalTeardown'', []),
                    (''extraHooks'', [Obj [(''beforeAll'', Fun ''a'' (Returns Undefined))]])]\<rparr>,
      Inr True)"
  by (simp add: load_def exportNames_def MochaPlugins_def)

lemma shared_option_name_finalize:
  "PluginLoader_finalize \<lparr>registered = map (\<lambda>p. (exportName p, p)) (MochaPlugins @
             [\<lparr>exportName = ''extraHooks'', optionName = Some ''rootHooks'',
               validate = None, finalize = Some mochaHooks_finalize\<rparr>]),
          loaded = [(''mochaHooks'', []), (''mochaGlobalSetup'', []),
                    (''mochaGlobalTeardown'', []),
                    (''extraHooks'', [Obj [(''beforeAll'', Fun ''a'' (Returns Undefined))]])]\<rparr>
   = (\<lparr>registered = map (\<lambda>p. (exportName p, p)) (MochaPlugins @
             [\<lparr>exportName = ''extraHooks'', optionName = Some ''rootHooks'',
               validate = None, finalize = Some mochaHooks_finalize\<rparr>]),
          loaded = [(''mochaHooks'', []), (''mochaGlobalSetup'', []),
                    (''mochaGlobalTeardown'', []),
                    (''extraHooks'', [Obj [(''beforeAll'', Fun ''a'' (Returns Undefined))]])]\<rparr>,
      Inr [(''rootHooks'',
            Obj [(''beforeAll'', Arr [Fun ''a'' (Returns Undefined)]), (''beforeEach'', Arr []),
                 (''afterAll'', Arr []), (''afterEach'', Arr [])])])"
proof -
  have "mochaHooks_finalize [Obj [(''beforeAll'', Fun ''a'' (Returns Undefined))]] =
      Inr (Obj [(''beforeAll'', Arr [Fun ''a'' (Returns Undefined)]), (''beforeEach'', Arr []),
                 (''afterAll'', Arr []), (''afterEach'', Arr [])])"
    using mochaHooks_finalize_resolved[of "[Obj [(''beforeAll'', Fun ''a'' (Returns Undefined))]]"
        "[Obj [(''beforeAll'', Fun ''a'' (Returns Undefined))]]"]
    by simp
  then show ?thesis
    by (simp add: PluginLoader_finalize_def MochaPlugins_def option_key_def)
qed

lemma load_reduce_succeeds:
  assumes "\<forall>n \<in> set ns. truthy (get_prop m n) \<longrightarrow>
           accepts L n (get_prop m n) \<and> map_of (loaded L) n \<noteq> None"
  shows "\<exists>L'. load_reduce m ns found L =
             (L', Inr (found \<or> (\<exists>n \<in> set ns. truthy (get_prop m n))))"
  using assms
proof (induction ns arbitrary: found L)
  case Nil
  then show ?case by simp
next
  case (Cons n ns)
  show ?case
  proof (cases rule: load_reduce_step[of m n ns found L])
    case skip
    from Cons.prems have "\<exists>L'. load_reduce m ns found L =
             (L', Inr (found \<or> (\<exists>n \<in> set ns. truthy (get_prop m n))))"
      by (intro Cons.IH) auto
    with skip show ?thesis by auto
  next
    case unknown
    with Cons.prems show ?thesis by (auto simp: accepts_iff)
  next
    case (rejected plugin check e)
    with Cons.prems show ?thesis by (auto simp: accepts_iff)
  next
    case (no_bucket plugin)
    with Cons.prems show ?thesis by auto
  next
    case (append plugin bucket)
    let ?L = "L\<lparr>loaded := map_set n (bucket @ castArray (get_prop m n)) (loaded L)\<rparr>"
    have "\<exists>L'. load_reduce m ns True ?L =
             (L', Inr (True \<or> (\<exists>n \<in> set ns. truthy (get_prop m n))))"
    proof (intro Cons.IH)
      show "\<forall>k \<in> set ns. truthy (get_prop m k) \<longrightarrow>
           accepts ?L k (get_prop m k) \<and> map_of (loaded ?L) k \<noteq> None"
        using Cons.prems by (auto simp: accepts_iff map_of_map_set)
    qed
    with append(1,5) show ?thesis by auto
  qed
qed

lemma load_succeeds:
  assumes "truthy m \<and> typeof m = TObject \<and>
      list_ex (\<lambda>name. truthy (get_prop m name)) (exportNames L) \<and>
      list_all (\<lambda>name. truthy (get_prop m name) \<longrightarrow>
                  accepts L name (get_prop m name) \<and> map_of (loaded L) name \<noteq> None)
        (exportNames L)"
  shows "\<exists>L'. load L m = (L', Inr True)"
proof -
  from assms have "\<forall>n \<in> set (exportNames L). truthy (get_prop m n) \<longrightarrow>
           accepts L n (get_prop m n) \<and> map_of (loaded L) n \<noteq> None"
    by (simp add: list_all_iff)
  from load_reduce_succeeds[OF this, of False] assms show ?thesis
    by (auto simp: load_def list_ex_iff)
qed














section \<open>Properties of the loader\<close>

text \<open>
  Claim C1. Modules are loaded one at a time into a loader created with the built-in plugin
  definitions, and every \<^verbatim>\<open>load\<close> returns. The root hook contributions are the
  \<^verbatim>\<open>mochaHooks\<close> exports of the modules, in the order of the modules. When there is at
  least one and each resolves to an object (a function is invoked and awaited, anything
  else is taken as it is), \<^verbatim>\<open>finalize\<close> returns under \<^verbatim>\<open>rootHooks\<close> an object with exactly the
  four keys \<^verbatim>\<open>beforeAll\<close>, \<^verbatim>\<open>beforeEach\<close>, \<^verbatim>\<open>afterAll\<close> and \<^verbatim>\<open>afterEach\<close>. The sequence of each
  key is the concatenation, in contribution order, of what each resolved object has under
  that key: nothing for a missing key, the elements of an array, a single callback as a
  sequence of one. \<^verbatim>\<open>aggregateRootHooks\<close> returns the same object for the same
  contributions. The ticks at which the promises of the contributions settle do not occur
  in the statement, and any list of contributions that settle with the same results,
  after whatever delays, is aggregated to the same object: the merge follows the order of
  contribution, never the order of completion.
\<close>

theorem root_hooks_merge_in_contribution_order:
  assumes "create None = Inr L0"
    and "load_all L0 modules = (L, results)"
    and "\<forall>r \<in> set results. \<exists>found. r = Inr found"
    and "concat (map (contribution ''mochaHooks'') modules) = contributions"
    and "contributions \<noteq> []"
    and "list_all2 (\<lambda>hook obj. settlement (resolve_hook hook) = Inr obj) contributions objs"
  shows "PluginLoader_finalize L =
     (L, Inr [(''rootHooks'',
        Obj [(''beforeAll'', Arr (concat (map (\<lambda>obj. castArray (lifecycle ''beforeAll'' obj)) objs))),
             (''beforeEach'', Arr (concat (map (\<lambda>obj. castArray (lifecycle ''beforeEach'' obj)) objs))),
             (''afterAll'', Arr (concat (map (\<lambda>obj. castArray (lifecycle ''afterAll'' obj)) objs))),
             (''afterEach'', Arr (concat (map (\<lambda>obj. castArray (lifecycle ''afterEach'' obj)) objs)))])])
   \<and> snd (aggregateRootHooks (Some contributions)) =
       Inr (Obj [(''beforeAll'', Arr (concat (map (\<lambda>obj. castArray (lifecycle ''beforeAll'' obj)) objs))),
             (''beforeEach'', Arr (concat (map (\<lambda>obj. castArray (lifecycle ''beforeEach'' obj)) objs))),
             (''afterAll'', Arr (concat (map (\<lambda>obj. castArray (lifecycle ''afterAll'' obj)) objs))),
             (''afterEach'', Arr (concat (map (\<lambda>obj. castArray (lifecycle ''afterEach'' obj)) objs)))])
   \<and> (\<forall>delayed.
         list_all2 (\<lambda>hook hook'. settlement (resolve_hook hook') = settlement (resolve_hook hook))
           contributions delayed \<longrightarrow>
         mochaHooks_finalize delayed = mochaHooks_finalize contributions)"
proof -
  from assms(1) have L0: "registered L0 = map (\<lambda>p. (exportName p, p)) MochaPlugins"
    "loaded L0 = [(''mochaHooks'', []), (''mochaGlobalSetup'', []), (''mochaGlobalTeardown'', [])]"
    by (auto simp: create_None)
  have names: "exportNames L0 = [''mochaHooks'', ''mochaGlobalSetup'', ''mochaGlobalTeardown'']"
    by (simp add: exportNames_def L0 MochaPlugins_def)
  have reg: "registered L = map (\<lambda>p. (exportName p, p)) MochaPlugins"
    using load_all_registered[of L0 modules] assms(2) L0 by simp
  have keys: "map fst (loaded L) = map exportName MochaPlugins"
    using load_all_keys[of L0 modules] assms(2) L0 by (simp add: MochaPlugins_def)
  have "map_of (loaded L) ''mochaHooks'' =
     map_option (\<lambda>bucket. bucket @ concat (map (contribution ''mochaHooks'') modules))
       (map_of (loaded L0) ''mochaHooks'')"
    using names by (intro load_all_returned_buckets[OF assms(2,3)]) simp_all
  then have bucket: "map_of (loaded L) ''mochaHooks'' = Some contributions"
    using assms(4) by (simp add: L0)
  from builtin_finalize[OF reg keys] bucket assms(5)
  have "snd (PluginLoader_finalize L) =
      (case mochaHooks_finalize contributions of
         Inl e \<Rightarrow> Inl e
       | Inr v \<Rightarrow> Inr [(''rootHooks'', v)])"
    by auto
  then have first: "PluginLoader_finalize L =
     (L, Inr [(''rootHooks'',
        Obj [(''beforeAll'', Arr (concat (map (\<lambda>obj. castArray (lifecycle ''beforeAll'' obj)) objs))),
             (''beforeEach'', Arr (concat (map (\<lambda>obj. castArray (lifecycle ''beforeEach'' obj)) objs))),
             (''afterAll'', Arr (concat (map (\<lambda>obj. castArray (lifecycle ''afterAll'' obj)) objs))),
             (''afterEach'', Arr (concat (map (\<lambda>obj. castArray (lifecycle ''afterEach'' obj)) objs)))])])"
    using mochaHooks_finalize_resolved[OF assms(5,6)]
    by (simp add: PluginLoader_finalize_def)
  have second: "snd (aggregateRootHooks (Some contributions)) =
       Inr (Obj [(''beforeAll'', Arr (concat (map (\<lambda>obj. castArray (lifecycle ''beforeAll'' obj)) objs))),
             (''beforeEach'', Arr (concat (map (\<lambda>obj. castArray (lifecycle ''beforeEach'' obj)) objs))),
             (''afterAll'', Arr (concat (map (\<lambda>obj. castArray (lifecycle ''afterAll'' obj)) objs))),
             (''afterEach'', Arr (concat (map (\<lambda>obj. castArray (lifecycle ''afterEach'' obj)) objs)))])"
    using mochaHooks_finalize_resolved[OF assms(5,6)] aggregate_agrees[OF assms(5)] by simp
  have third: "mochaHooks_finalize delayed = mochaHooks_finalize contributions"
    if d: "list_all2 (\<lambda>hook hook'. settlement (resolve_hook hook') = settlement (resolve_hook hook))
           contributions delayed" for delayed
  proof -
    from d assms(5) have ne: "delayed \<noteq> []" by auto
    from d assms(6)
    have "list_all2 (\<lambda>hook obj. settlement (resolve_hook hook) = Inr obj) delayed objs"
      by (auto simp: list_all2_conv_all_nth)
    from mochaHooks_finalize_resolved[OF ne this] mochaHooks_finalize_resolved[OF assms(5,6)]
    show ?thesis by simp
  qed
  from first second third show ?thesis by blast
qed

theorem root_hooks_merge_in_contribution_order_witness:
  "snd (PluginLoader_finalize (fst (load_all
       \<lparr>registered = map (\<lambda>p. (exportName p, p)) MochaPlugins,
        loaded = [(''mochaHooks'', []), (''mochaGlobalSetup'', []), (''mochaGlobalTeardown'', [])]\<rparr>
       [Obj [(''mochaHooks'', Fun ''slow'' (Fulfils 7
               (Obj [(''beforeEach'', Fun ''a'' (Returns Undefined))])))],
        Obj [(''mochaHooks'', Obj [(''afterAll'', Fun ''b'' (Returns Undefined))])],
        Num 42,
        Obj [(''mochaHooks'', Fun ''c'' (Returns
               (Obj [(''beforeAll'', Fun ''d'' (Returns Undefined)),
                     (''beforeEach'', Arr [Fun ''g'' (Returns Undefined),
                                           Fun ''h'' (Returns Undefined)])])))],
        Obj [(''mochaHooks'', Fun ''e'' (Fulfils 2
               (Obj [(''afterEach'', Fun ''f'' (Returns Undefined))])))]])))
   = Inr [(''rootHooks'',
        Obj [(''beforeAll'', Arr [Fun ''d'' (Returns Undefined)]),
             (''beforeEach'', Arr [Fun ''a'' (Returns Undefined), Fun ''g'' (Returns Undefined),
                                   Fun ''h'' (Returns Undefined)]),
             (''afterAll'', Arr [Fun ''b'' (Returns Undefined)]),
             (''afterEach'', Arr [Fun ''f'' (Returns Undefined)])])]"
proof -
  let ?L0 = "\<lparr>registered = map (\<lambda>p. (exportName p, p)) MochaPlugins,
        loaded = [(''mochaHooks'', []), (''mochaGlobalSetup'', []), (''mochaGlobalTeardown'', [])]\<rparr>"
  let ?slow = "Fun ''slow'' (Fulfils 7 (Obj [(''beforeEach'', Fun ''a'' (Returns Undefined))]))"
  let ?b = "Obj [(''afterAll'', Fun ''b'' (Returns Undefined))]"
  let ?c = "Fun ''c'' (Returns
               (Obj [(''beforeAll'', Fun ''d'' (Returns Undefined)),
                     (''beforeEach'', Arr [Fun ''g'' (Returns Undefined),
                                           Fun ''h'' (Returns Undefined)])]))"
  let ?e = "Fun ''e'' (Fulfils 2 (Obj [(''afterEach'', Fun ''f'' (Returns Undefined))]))"
  let ?ms = "[Obj [(''mochaHooks'', ?slow)], Obj [(''mochaHooks'', ?b)], Num 42,
              Obj [(''mochaHooks'', ?c)], Obj [(''mochaHooks'', ?e)]]"
  let ?objs = "[Obj [(''beforeEach'', Fun ''a'' (Returns Undefined))], ?b,
                Obj [(''beforeAll'', Fun ''d'' (Returns Undefined)),
                     (''beforeEach'', Arr [Fun ''g'' (Returns Undefined),
                                           Fun ''h'' (Returns Undefined)])],
                Obj [(''afterEach'', Fun ''f'' (Returns Undefined))]]"
  have 1: "create None = Inr ?L0" by (rule create_None)
  have 2: "load_all ?L0 ?ms = (fst (load_all ?L0 ?ms), snd (load_all ?L0 ?ms))" by simp
  have 3: "\<forall>r \<in> set (snd (load_all ?L0 ?ms)). \<exists>found. r = Inr found"
    by (auto simp: load_def exportNames_def MochaPlugins_def mochaHooks_validate_def)
  have 4: "concat (map (contribution ''mochaHooks'') ?ms) = [?slow, ?b, ?c, ?e]"
    by (simp add: contribution_def)
  have 5: "[?slow, ?b, ?c, ?e] \<noteq> []" by simp
  have 6: "list_all2 (\<lambda>hook obj. settlement (resolve_hook hook) = Inr obj) [?slow, ?b, ?c, ?e] ?objs"
    by simp
  show ?thesis
    using root_hooks_merge_in_contribution_order[OF 1 2 3 4 5 6, THEN conjunct1] by simp
qed

text \<open>
  Claim C4. As stated the claim fails for a module with one registered export that passes
  validation and another that is rejected: the condition of the claim holds and
  \<^verbatim>\<open>load\<close> throws. Amended: \<^verbatim>\<open>load\<close> returns true exactly when the module is a non-null
  object, some registered export name is a property of it with a truthy value, and every
  truthy property under a registered name passes validation and has a bucket. It returns
  false exactly when the module is not a non-null object or has no truthy property under
  a registered name, and the loader is then as it was before the call: so for
  \<^verbatim>\<open>null\<close>, \<^verbatim>\<open>undefined\<close>, 42, an object with only unrecognized keys, and, under the
  built-in names, the object with no property. A property is read with
  \<^term>\<open>get_prop\<close>.
\<close>

theorem load_result_characterised:
  "((\<exists>L'. load L m = (L', Inr True)) \<longleftrightarrow>
       truthy m \<and> typeof m = TObject \<and>
       list_ex (\<lambda>name. truthy (get_prop m name)) (exportNames L) \<and>
       list_all (\<lambda>name. truthy (get_prop m name) \<longrightarrow>
                   accepts L name (get_prop m name) \<and> map_of (loaded L) name \<noteq> None)
         (exportNames L))
   \<and> ((\<exists>L'. load L m = (L', Inr False)) \<longleftrightarrow>
        \<not> (truthy m \<and> typeof m = TObject) \<or>
        list_all (\<lambda>name. \<not> truthy (get_prop m name)) (exportNames L))
   \<and> (\<forall>L'. load L m = (L', Inr False) \<longrightarrow> L' = L)
   \<and> load L Null = (L, Inr False)
   \<and> load L Undefined = (L, Inr False)
   \<and> load L (Num 42) = (L, Inr False)
   \<and> (exportNames L = [''mochaHooks'', ''mochaGlobalSetup'', ''mochaGlobalTeardown''] \<longrightarrow>
        load L (Obj []) = (L, Inr False))"
proof -
  let ?all = "truthy m \<and> typeof m = TObject \<and>
       list_ex (\<lambda>name. truthy (get_prop m name)) (exportNames L) \<and>
       list_all (\<lambda>name. truthy (get_prop m name) \<longrightarrow>
                   accepts L name (get_prop m name) \<and> map_of (loaded L) name \<noteq> None)
         (exportNames L)"
  let ?none = "\<not> (truthy m \<and> typeof m = TObject) \<or>
        list_all (\<lambda>name. \<not> truthy (get_prop m name)) (exportNames L)"
  have returned: "(found \<longleftrightarrow> (\<exists>n \<in> set (exportNames L). truthy (get_prop m n)))
       \<and> (\<forall>n \<in> set (exportNames L). truthy (get_prop m n) \<longrightarrow>
              accepts L n (get_prop m n) \<and> map_of (loaded L) n \<noteq> None)
       \<and> (\<not> found \<longrightarrow> L' = L)"
    if "load L m = (L', Inr found)" and "truthy m \<and> typeof m = TObject" for L' found
  proof -
    from that have "load_reduce m (exportNames L) False L = (L', Inr found)"
      by (simp add: load_def)
    from load_reduce_returned[OF this] show ?thesis by simp
  qed
  have object: "truthy m \<and> typeof m = TObject" if "load L m = (L', Inr True)" for L'
    using that by (auto simp: load_def split: if_splits)
  have t: "(\<exists>L'. load L m = (L', Inr True)) \<longleftrightarrow> ?all"
  proof
    assume "\<exists>L'. load L m = (L', Inr True)"
    then obtain L' where l: "load L m = (L', Inr True)" by blast
    from returned[OF l object[OF l]] object[OF l] show ?all
      by (auto simp: list_ex_iff list_all_iff)
  next
    assume ?all
    then show "\<exists>L'. load L m = (L', Inr True)" by (rule load_succeeds)
  qed
  have f: "(\<exists>L'. load L m = (L', Inr False)) \<longleftrightarrow> ?none"
  proof
    assume "\<exists>L'. load L m = (L', Inr False)"
    then obtain L' where l: "load L m = (L', Inr False)" by blast
    show ?none
    proof (cases "truthy m \<and> typeof m = TObject")
      case True
      from returned[OF l True] show ?thesis by (auto simp: list_all_iff)
    next
      case False
      then show ?thesis by simp
    qed
  next
    assume ?none
    then have "load L m = (L, Inr False)"
      by (auto simp: load_def load_reduce_nothing_found)
    then show "\<exists>L'. load L m = (L', Inr False)" by blast
  qed
  have u: "\<forall>L'. load L m = (L', Inr False) \<longrightarrow> L' = L"
  proof (intro allI impI)
    fix L' assume l: "load L m = (L', Inr False)"
    show "L' = L"
    proof (cases "truthy m \<and> typeof m = TObject")
      case True
      from returned[OF l True] show ?thesis by simp
    next
      case False
      with l show ?thesis by (auto simp: load_def)
    qed
  qed
  have n1: "load L Null = (L, Inr False)" by (simp add: load_def)
  have n2: "load L Undefined = (L, Inr False)" by (simp add: load_def)
  have n3: "load L (Num 42) = (L, Inr False)" by (simp add: load_def)
  have e: "exportNames L = [''mochaHooks'', ''mochaGlobalSetup'', ''mochaGlobalTeardown''] \<longrightarrow>
        load L (Obj []) = (L, Inr False)"
    by (simp add: load_def)
  show ?thesis by (intro conjI t f u n1 n2 n3 e)
qed

theorem load_result_characterised_witness:
  "(\<exists>L'. load \<lparr>registered = map (\<lambda>p. (exportName p, p)) MochaPlugins,
         loaded = [(''mochaHooks'', []), (''mochaGlobalSetup'', []), (''mochaGlobalTeardown'', [])]\<rparr>
        (Obj [(''mochaHooks'', Obj [(''beforeAll'', Fun ''a'' (Returns Undefined))]),
              (''mochaBananaPhone'', Num 1)]) = (L', Inr True))
   \<and> (\<exists>L'. load \<lparr>registered = map (\<lambda>p. (exportName p, p)) MochaPlugins,
         loaded = [(''mochaHooks'', []), (''mochaGlobalSetup'', []), (''mochaGlobalTeardown'', [])]\<rparr>
        (Obj [(''mochaBananaPhone'', Fun ''f'' (Returns Undefined))]) = (L', Inr False))
   \<and> load \<lparr>registered = map (\<lambda>p. (exportName p, p)) MochaPlugins,
         loaded = [(''mochaHooks'', []), (''mochaGlobalSetup'', []), (''mochaGlobalTeardown'', [])]\<rparr>
        (Obj []) =
       (\<lparr>registered = map (\<lambda>p. (exportName p, p)) MochaPlugins,
         loaded = [(''mochaHooks'', []), (''mochaGlobalSetup'', []), (''mochaGlobalTeardown'', [])]\<rparr>,
        Inr False)
   \<and> \<not> (\<exists>L'. load \<lparr>registered = map (\<lambda>p. (exportName p, p)) MochaPlugins,
         loaded = [(''mochaHooks'', []), (''mochaGlobalSetup'', []), (''mochaGlobalTeardown'', [])]\<rparr>
        (Obj [(''mochaGlobalSetup'', Num 42),
              (''mochaHooks'', Obj [(''beforeAll'', Fun ''a'' (Returns Undefined))])]) = (L', Inr True))"
proof -
  let ?L = "\<lparr>registered = map (\<lambda>p. (exportName p, p)) MochaPlugins,
         loaded = [(''mochaHooks'', []), (''mochaGlobalSetup'', []), (''mochaGlobalTeardown'', [])]\<rparr>"
  let ?good = "Obj [(''mochaHooks'', Obj [(''beforeAll'', Fun ''a'' (Returns Undefined))]),
              (''mochaBananaPhone'', Num 1)]"
  let ?other = "Obj [(''mochaBananaPhone'', Fun ''f'' (Returns Undefined))]"
  let ?mixed = "Obj [(''mochaGlobalSetup'', Num 42),
              (''mochaHooks'', Obj [(''beforeAll'', Fun ''a'' (Returns Undefined))])]"
  have names: "exportNames ?L = [''mochaHooks'', ''mochaGlobalSetup'', ''mochaGlobalTeardown'']"
    by (rule builtin_names)
  have good: "truthy ?good \<and> typeof ?good = TObject \<and>
       list_ex (\<lambda>name. truthy (get_prop ?good name)) (exportNames ?L) \<and>
       list_all (\<lambda>name. truthy (get_prop ?good name) \<longrightarrow>
                   accepts ?L name (get_prop ?good name) \<and> map_of (loaded ?L) name \<noteq> None)
         (exportNames ?L)"
    unfolding names by (simp add: accepts_def MochaPlugins_def mochaHooks_validate_def)
  have other: "\<not> (truthy ?other \<and> typeof ?other = TObject) \<or>
        list_all (\<lambda>name. \<not> truthy (get_prop ?other name)) (exportNames ?L)"
    unfolding names by simp
  have mixed: "\<not> (truthy ?mixed \<and> typeof ?mixed = TObject \<and>
       list_ex (\<lambda>name. truthy (get_prop ?mixed name)) (exportNames ?L) \<and>
       list_all (\<lambda>name. truthy (get_prop ?mixed name) \<longrightarrow>
                   accepts ?L name (get_prop ?mixed name) \<and> map_of (loaded ?L) name \<noteq> None)
         (exportNames ?L))"
    unfolding names
    by (simp add: accepts_def MochaPlugins_def createFunctionArrayValidator_def
        createUnsupportedError_def)
  note a = load_result_characterised[of ?L ?good, THEN conjunct1]
  note b = load_result_characterised[of ?L ?other, THEN conjunct2, THEN conjunct1]
  note c = load_result_characterised[of ?L ?mixed, THEN conjunct1]
  note d = load_result_characterised[of ?L ?mixed, THEN conjunct2, THEN conjunct2, THEN conjunct2,
      THEN conjunct2, THEN conjunct2, THEN conjunct2, rule_format, OF names]
  from a good have 1: "\<exists>L'. load ?L ?good = (L', Inr True)" by (rule iffD2)
  from b other have 2: "\<exists>L'. load ?L ?other = (L', Inr False)" by (rule iffD2)
  have 3: "\<not> (\<exists>L'. load ?L ?mixed = (L', Inr True))"
  proof
    assume "\<exists>L'. load ?L ?mixed = (L', Inr True)"
    with c have "truthy ?mixed \<and> typeof ?mixed = TObject \<and>
       list_ex (\<lambda>name. truthy (get_prop ?mixed name)) (exportNames ?L) \<and>
       list_all (\<lambda>name. truthy (get_prop ?mixed name) \<longrightarrow>
                   accepts ?L name (get_prop ?mixed name) \<and> map_of (loaded ?L) name \<noteq> None)
         (exportNames ?L)"
      by (rule iffD1)
    with mixed show False by (rule notE)
  qed
  from 1 2 d 3 show ?thesis by (intro conjI)
qed

text \<open>
  The claim as stated fails: in the module below \<^verbatim>\<open>mochaHooks\<close> is a registered export
  name with a truthy value that passes validation, and \<^verbatim>\<open>load\<close> on the loader created
  with the built-in definitions throws the error of the \<^verbatim>\<open>mochaGlobalSetup\<close> validator
  instead of returning true.
\<close>

theorem load_throws_although_one_export_is_accepted:
  "truthy (Obj [(''mochaGlobalSetup'', Num 42),
                (''mochaHooks'', Obj [(''beforeAll'', Fun ''a'' (Returns Undefined))])])
   \<and> typeof (Obj [(''mochaGlobalSetup'', Num 42),
                (''mochaHooks'', Obj [(''beforeAll'', Fun ''a'' (Returns Undefined))])]) = TObject
   \<and> ''mochaHooks'' \<in> set (exportNames
        \<lparr>registered = map (\<lambda>p. (exportName p, p)) MochaPlugins,
         loaded = [(''mochaHooks'', []), (''mochaGlobalSetup'', []), (''mochaGlobalTeardown'', [])]\<rparr>)
   \<and> truthy (get_prop (Obj [(''mochaGlobalSetup'', Num 42),
                (''mochaHooks'', Obj [(''beforeAll'', Fun ''a'' (Returns Undefined))])]) ''mochaHooks'')
   \<and> accepts \<lparr>registered = map (\<lambda>p. (exportName p, p)) MochaPlugins,
         loaded = [(''mochaHooks'', []), (''mochaGlobalSetup'', []), (''mochaGlobalTeardown'', [])]\<rparr>
        ''mochaHooks''
        (get_prop (Obj [(''mochaGlobalSetup'', Num 42),
                (''mochaHooks'', Obj [(''beforeAll'', Fun ''a'' (Returns Undefined))])]) ''mochaHooks'')
   \<and> create None = Inr \<lparr>registered = map (\<lambda>p. (exportName p, p)) MochaPlugins,
         loaded = [(''mochaHooks'', []), (''mochaGlobalSetup'', []), (''mochaGlobalTeardown'', [])]\<rparr>
   \<and> snd (load \<lparr>registered = map (\<lambda>p. (exportName p, p)) MochaPlugins,
         loaded = [(''mochaHooks'', []), (''mochaGlobalSetup'', []), (''mochaGlobalTeardown'', [])]\<rparr>
        (Obj [(''mochaGlobalSetup'', Num 42),
              (''mochaHooks'', Obj [(''beforeAll'', Fun ''a'' (Returns Undefined))])]))
     = Inl (UnsupportedError ''mochaGlobalSetup must be a function or an array of functions'')"
  by (simp add: create_None builtin_names load_def accepts_def)
     (simp add: MochaPlugins_def mochaHooks_validate_def createFunctionArrayValidator_def
        createUnsupportedError_def)

text \<open>
  Claim C5. \<^verbatim>\<open>register\<close> throws the name conflict error for a definition whose
  export name is registered already. Constructing a loader from definitions two of which
  have the same export name throws that error, so no loader exists to call \<^verbatim>\<open>load\<close> or
  \<^verbatim>\<open>finalize\<close> on. A \<^verbatim>\<open>register\<close> that succeeds appends the new kind: every kind
  registered before is still registered with the same definition, and the buckets are
  untouched.
\<close>

theorem register_name_conflict:
  "(map_of (registered L) (exportName plugin) \<noteq> None \<longrightarrow>
       register L plugin = Inl (Error (''plugin name conflict: '' @ exportName plugin)))
   \<and> (\<not> distinct (map exportName defs) \<longrightarrow>
        (\<exists>p \<in> set defs. new_PluginLoader (Some defs) =
            Inl (Error (''plugin name conflict: '' @ exportName p))))
   \<and> (\<forall>L'. register L plugin = Inr L' \<longrightarrow>
        registered L' = registered L @ [(exportName plugin, plugin)] \<and>
        loaded L' = loaded L \<and>
        (\<forall>name p. map_of (registered L) name = Some p \<longrightarrow>
                   map_of (registered L') name = Some p))"
proof (intro conjI impI allI)
  assume "map_of (registered L) (exportName plugin) \<noteq> None"
  then show "register L plugin = Inl (Error (''plugin name conflict: '' @ exportName plugin))"
    by (simp add: register_def map_has_def)
next
  assume "\<not> distinct (map exportName defs)"
  then have "\<exists>p \<in> set defs. register_each \<lparr>registered = [], loaded = []\<rparr> defs =
     Inl (Error (''plugin name conflict: '' @ exportName p))"
    by (intro register_each_conflict) auto
  then show "\<exists>p \<in> set defs. new_PluginLoader (Some defs) =
            Inl (Error (''plugin name conflict: '' @ exportName p))"
    by (auto simp: new_PluginLoader_def)
next
  fix L' assume r: "register L plugin = Inr L'"
  then have fresh: "exportName plugin \<notin> fst ` set (registered L)"
    by (auto simp: register_def map_has_iff split: if_splits)
  from r register_fresh[OF fresh]
  show "registered L' = registered L @ [(exportName plugin, plugin)]" and "loaded L' = loaded L"
    by auto
  then show "map_of (registered L') name = Some p" if "map_of (registered L) name = Some p"
    for name p
    using that by (auto simp: map_add_Some_iff) 
qed

theorem register_name_conflict_witness:
  "register \<lparr>registered = [(''mochaBananaPhone'',
                  \<lparr>exportName = ''mochaBananaPhone'', optionName = None,
                   validate = None, finalize = None\<rparr>)],
              loaded = [(''mochaBananaPhone'', [])]\<rparr>
     \<lparr>exportName = ''mochaBananaPhone'', optionName = Some ''bananaPhone'',
      validate = None, finalize = None\<rparr>
     = Inl (Error ''plugin name conflict: mochaBananaPhone'')
   \<and> new_PluginLoader (Some
        [\<lparr>exportName = ''mochaBananaPhone'', optionName = None,
          validate = None, finalize = None\<rparr>,
         \<lparr>exportName = ''mochaBananaPhone'', optionName = Some ''bananaPhone'',
          validate = None, finalize = None\<rparr>])
     = Inl (Error ''plugin name conflict: mochaBananaPhone'')
   \<and> map_of (registered (projr (register
          \<lparr>registered = [(''mochaBananaPhone'',
                  \<lparr>exportName = ''mochaBananaPhone'', optionName = None,
                   validate = None, finalize = None\<rparr>)],
           loaded = [(''mochaBananaPhone'', [])]\<rparr>
          \<lparr>exportName = ''mochaCherryPhone'', optionName = None,
           validate = None, finalize = None\<rparr>))) ''mochaBananaPhone''
     = Some \<lparr>exportName = ''mochaBananaPhone'', optionName = None,
             validate = None, finalize = None\<rparr>"
proof -
  let ?banana = "\<lparr>exportName = ''mochaBananaPhone'', optionName = None,
                   validate = None, finalize = None\<rparr>"
  let ?banana' = "\<lparr>exportName = ''mochaBananaPhone'', optionName = Some ''bananaPhone'',
      validate = None, finalize = None\<rparr>"
  let ?cherry = "\<lparr>exportName = ''mochaCherryPhone'', optionName = None,
           validate = None, finalize = None\<rparr>"
  let ?L = "\<lparr>registered = [(''mochaBananaPhone'', ?banana)],
             loaded = [(''mochaBananaPhone'', [])]\<rparr>"
  have 1: "map_of (registered ?L) (exportName ?banana') \<noteq> None" by simp
  have 2: "\<not> distinct (map exportName [?banana, ?banana'])" by simp
  have 3: "register ?L ?cherry = Inr (projr (register ?L ?cherry))"
    by (simp add: register_def map_has_def)
  have 4: "map_of (registered ?L) ''mochaBananaPhone'' = Some ?banana" by simp
  from register_name_conflict[of ?L ?banana' "[?banana, ?banana']"] 1 2
  have a: "register ?L ?banana' = Inl (Error (''plugin name conflict: '' @ exportName ?banana'))"
    and b: "\<exists>p \<in> set [?banana, ?banana']. new_PluginLoader (Some [?banana, ?banana']) =
            Inl (Error (''plugin name conflict: '' @ exportName p))"
    by blast+
  from register_name_conflict[of ?L ?cherry "[]"] 3 4
  have c: "map_of (registered (projr (register ?L ?cherry))) ''mochaBananaPhone'' = Some ?banana"
    by blast
  from a b c show ?thesis by simp
qed

text \<open>
  Claim C6. When \<^verbatim>\<open>load\<close> throws, every bucket still begins with what it held
  before the call: the contributions of earlier modules remain, in order, and the
  registry and the set of buckets are unchanged.
\<close>

theorem failed_load_keeps_earlier_contributions:
  assumes "load L m = (L', Inl e)"
  shows "registered L' = registered L \<and> map fst (loaded L') = map fst (loaded L) \<and>
     (\<forall>name bucket. map_of (loaded L) name = Some bucket \<longrightarrow>
        (\<exists>added. map_of (loaded L') name = Some (bucket @ added)))"
proof -
  have L': "L' = fst (load L m)" using assms by simp
  have "\<exists>added. map_of (loaded L') name = Some (bucket @ added)"
    if "map_of (loaded L) name = Some bucket" for name bucket
  proof (cases "truthy m \<and> typeof m = TObject")
    case False
    with that show ?thesis by (auto simp: L' load_def)
  next
    case True
    with load_reduce_prefix[OF that, of m "exportNames L" False] show ?thesis
      by (auto simp: L' load_def)
  qed
  then show ?thesis
    using load_registered[of L m] load_keys[of L m] by (simp add: L')
qed

theorem failed_load_keeps_earlier_contributions_witness:
  "load \<lparr>registered = map (\<lambda>p. (exportName p, p)) MochaPlugins,
          loaded = [(''mochaHooks'', [Obj [(''beforeAll'', Fun ''a'' (Returns Undefined))]]),
                    (''mochaGlobalSetup'', [Fun ''s'' (Returns Undefined)]),
                    (''mochaGlobalTeardown'', [])]\<rparr>
        (Obj [(''mochaHooks'', Arr [Obj []])])
     = (\<lparr>registered = map (\<lambda>p. (exportName p, p)) MochaPlugins,
          loaded = [(''mochaHooks'', [Obj [(''beforeAll'', Fun ''a'' (Returns Undefined))]]),
                    (''mochaGlobalSetup'', [Fun ''s'' (Returns Undefined)]),
                    (''mochaGlobalTeardown'', [])]\<rparr>,
        Inl (UnsupportedError
          ''mochaHooks must be an object or a function returning (or fulfilling with) an object''))
   \<and> (\<exists>added. map_of
          [(''mochaHooks'', [Obj [(''beforeAll'', Fun ''a'' (Returns Undefined))]]),
           (''mochaGlobalSetup'', [Fun ''s'' (Returns Undefined)]),
           (''mochaGlobalTeardown'', [])] ''mochaGlobalSetup''
        = Some ([Fun ''s'' (Returns Undefined)] @ added))"
proof -
  let ?bs = "[(''mochaHooks'', [Obj [(''beforeAll'', Fun ''a'' (Returns Undefined))]]),
                    (''mochaGlobalSetup'', [Fun ''s'' (Returns Undefined)]),
                    (''mochaGlobalTeardown'', [])]"
  let ?L = "\<lparr>registered = map (\<lambda>p. (exportName p, p)) MochaPlugins, loaded = ?bs\<rparr>"
  have l: "load ?L (Obj [(''mochaHooks'', Arr [Obj []])]) = (?L, Inl (UnsupportedError
          ''mochaHooks must be an object or a function returning (or fulfilling with) an object''))"
    by (simp add: load_def exportNames_def MochaPlugins_def mochaHooks_validate_def
        createUnsupportedError_def)
  have b: "map_of (loaded ?L) ''mochaGlobalSetup'' = Some [Fun ''s'' (Returns Undefined)]"
    by simp
  from failed_load_keeps_earlier_contributions[OF l] b
  have "\<exists>added. map_of (loaded ?L) ''mochaGlobalSetup'' = Some ([Fun ''s'' (Returns Undefined)] @ added)"
    by blast
  with l show ?thesis by simp
qed




text \<open>
  Claim C8. The validator of \<^verbatim>\<open>mochaHooks\<close> throws exactly when the value is an
  array or its \<^verbatim>\<open>typeof\<close> is neither function nor object (\<^verbatim>\<open>null\<close> has type object and
  passes). The validator of \<^verbatim>\<open>mochaGlobalSetup\<close> and \<^verbatim>\<open>mochaGlobalTeardown\<close> throws exactly
  when the value is neither a function nor an array whose elements are all functions.
  What they throw is the unsupported error, with a message that names the export and the
  expected shape. These are the validators of the built-in plugin definitions.
\<close>

theorem builtin_validators_reject_malformed:
  "((\<exists>e. mochaHooks_validate v = Some e) \<longleftrightarrow>
       isArray v \<or> (typeof v \<noteq> TFunction \<and> typeof v \<noteq> TObject))
   \<and> (mochaHooks_validate v = None \<or> mochaHooks_validate v = Some (UnsupportedError
         ''mochaHooks must be an object or a function returning (or fulfilling with) an object''))
   \<and> ((\<exists>e. createFunctionArrayValidator pluginType v = Some e) \<longleftrightarrow>
          \<not> (typeof v = TFunction \<or>
             (isArray v \<and> list_all (\<lambda>item. typeof item = TFunction) (elements v))))
   \<and> (createFunctionArrayValidator pluginType v = None \<or>
        createFunctionArrayValidator pluginType v = Some (UnsupportedError
          (pluginType @ '' must be a function or an array of functions'')))
   \<and> map (\<lambda>p. (exportName p, validate p)) MochaPlugins =
        [(''mochaHooks'', Some mochaHooks_validate),
         (''mochaGlobalSetup'', Some (createFunctionArrayValidator ''mochaGlobalSetup'')),
         (''mochaGlobalTeardown'', Some (createFunctionArrayValidator ''mochaGlobalTeardown''))]"
proof -
  have "list_ex (\<lambda>item. typeof item \<noteq> TFunction) xs \<longleftrightarrow>
        \<not> list_all (\<lambda>item. typeof item = TFunction) xs" for xs
    by (simp add: list_ex_iff list_all_iff)
  then show ?thesis
    by (cases v)
       (simp_all add: mochaHooks_validate_def createFunctionArrayValidator_def
          createUnsupportedError_def MochaPlugins_def)
qed

theorem builtin_validators_reject_malformed_witness:
  "(\<exists>e. mochaHooks_validate (Arr [Obj []]) = Some e)
   \<and> (\<exists>e. mochaHooks_validate (Num 42) = Some e)
   \<and> \<not> (\<exists>e. mochaHooks_validate (Obj [(''beforeAll'', Fun ''a'' (Returns Undefined))]) = Some e)
   \<and> \<not> (\<exists>e. mochaHooks_validate (Fun ''hooks'' (Returns (Obj []))) = Some e)
   \<and> (\<exists>e. createFunctionArrayValidator ''mochaGlobalSetup''
              (Arr [Fun ''a'' (Returns Undefined), Num 1]) = Some e)
   \<and> (\<exists>e. createFunctionArrayValidator ''mochaGlobalSetup'' (Obj []) = Some e)
   \<and> \<not> (\<exists>e. createFunctionArrayValidator ''mochaGlobalSetup''
              (Arr [Fun ''a'' (Returns Undefined), Fun ''b'' (Returns Undefined)]) = Some e)
   \<and> \<not> (\<exists>e. createFunctionArrayValidator ''mochaGlobalSetup''
              (Fun ''a'' (Returns Undefined)) = Some e)"
  using builtin_validators_reject_malformed[of "Arr [Obj []]" "''mochaGlobalSetup''"]
    builtin_validators_reject_malformed[of "Num 42" "''mochaGlobalSetup''"]
    builtin_validators_reject_malformed[of "Obj [(''beforeAll'', Fun ''a'' (Returns Undefined))]"
      "''mochaGlobalSetup''"]
    builtin_validators_reject_malformed[of "Fun ''hooks'' (Returns (Obj []))" "''mochaGlobalSetup''"]
    builtin_validators_reject_malformed[of "Arr [Fun ''a'' (Returns Undefined), Num 1]"
      "''mochaGlobalSetup''"]
    builtin_validators_reject_malformed[of "Obj []" "''mochaGlobalSetup''"]
    builtin_validators_reject_malformed[of
      "Arr [Fun ''a'' (Returns Undefined), Fun ''b'' (Returns Undefined)]" "''mochaGlobalSetup''"]
    builtin_validators_reject_malformed[of "Fun ''a'' (Returns Undefined)" "''mochaGlobalSetup''"]
  by simp

text \<open>
  Claim C10. With the built-in definitions the two loaders agree on every
  sequence of modules: the calls to \<^verbatim>\<open>load\<close> return the same booleans and throw the same
  errors, call by call, and the loaders end with the same buckets. On every list of root
  hooks that is not empty, the \<^verbatim>\<open>finalize\<close> of the \<^verbatim>\<open>mochaHooks\<close> kind and
  \<^verbatim>\<open>aggregateRootHooks\<close> give the same result.
\<close>

theorem loaders_agree_on_builtin_definitions:
  "(\<exists>L0. create None = Inr L0 \<and>
      (\<forall>modules.
         snd (load_all L0 modules) = snd (load_all_pm (create_pm None None) modules) \<and>
         loaded (fst (load_all L0 modules)) =
           pluginMap (fst (load_all_pm (create_pm None None) modules))))
   \<and> (\<forall>rootHooks. rootHooks \<noteq> [] \<longrightarrow>
         mochaHooks_finalize rootHooks = snd (aggregateRootHooks (Some rootHooks)))"
  using corresponds_load_all[OF builtin_corresponds]
  by (auto simp: create_None aggregate_agrees corresponds_def)

theorem loaders_agree_on_builtin_definitions_witness:
  "snd (load_all \<lparr>registered = map (\<lambda>p. (exportName p, p)) MochaPlugins,
          loaded = [(''mochaHooks'', []), (''mochaGlobalSetup'', []), (''mochaGlobalTeardown'', [])]\<rparr>
         [Obj [(''mochaHooks'', Obj [])], Obj [(''mochaGlobalSetup'', Num 42)], Null])
     = snd (load_all_pm (create_pm None None)
         [Obj [(''mochaHooks'', Obj [])], Obj [(''mochaGlobalSetup'', Num 42)], Null])
   \<and> mochaHooks_finalize [Obj [(''beforeAll'', Fun ''a'' (Returns Undefined))]]
       = snd (aggregateRootHooks (Some [Obj [(''beforeAll'', Fun ''a'' (Returns Undefined))]]))"
proof -
  let ?L0 = "\<lparr>registered = map (\<lambda>p. (exportName p, p)) MochaPlugins,
          loaded = [(''mochaHooks'', []), (''mochaGlobalSetup'', []), (''mochaGlobalTeardown'', [])]\<rparr>"
  have ne: "[Obj [(''beforeAll'', Fun ''a'' (Returns Undefined))]] \<noteq> []" by simp
  from loaders_agree_on_builtin_definitions obtain L0 where
    c: "create None = Inr L0"
    and a: "\<forall>modules.
         snd (load_all L0 modules) = snd (load_all_pm (create_pm None None) modules) \<and>
         loaded (fst (load_all L0 modules)) =
           pluginMap (fst (load_all_pm (create_pm None None) modules))"
    and f: "\<forall>rootHooks. rootHooks \<noteq> [] \<longrightarrow>
         mochaHooks_finalize rootHooks = snd (aggregateRootHooks (Some rootHooks))"
    by blast
  from c have "L0 = ?L0" unfolding create_None by (rule sum.inject[THEN iffD1, symmetric])
  with a f ne show ?thesis by blast
qed

text \<open>
  Claim C9. A single \<^verbatim>\<open>load\<close> is not atomic. Let the names walked by the loader begin with
  the names \<open>earlier\<close>, followed by \<open>failing\<close>; let the module be an object whose truthy
  properties under the earlier names pass validation and have a bucket, and whose property
  under \<open>failing\<close> is truthy and rejected by its validator with the error \<open>e\<close>. Then
  \<^verbatim>\<open>load\<close> throws \<open>e\<close>, and in the loader that the call leaves behind, the bucket of
  every earlier name has the contribution of this module appended. This holds for the loader with a registry
  and for the loader with a plugin map.
\<close>

theorem load_is_not_atomic:
  assumes "truthy m \<and> typeof m = TObject"
    and "distinct earlier"
    and "truthy (get_prop m failing)"
    and "check (get_prop m failing) = Some e"
  shows "(exportNames L = earlier @ failing # later \<and>
          (\<forall>name \<in> set earlier. truthy (get_prop m name) \<longrightarrow>
             accepts L name (get_prop m name) \<and> map_of (loaded L) name \<noteq> None) \<and>
          map_of (registered L) failing = Some plugin \<and> validate plugin = Some check
          \<longrightarrow> (\<exists>L'. load L m = (L', Inl e) \<and>
                 (\<forall>name \<in> set earlier. map_of (loaded L') name =
                    map_option (\<lambda>bucket. bucket @ contribution name m)
                      (map_of (loaded L) name))))
       \<and> (pluginNames P = earlier @ failing # later \<and>
          (\<forall>name \<in> set earlier. truthy (get_prop m name) \<longrightarrow>
             accepts_pm P name (get_prop m name) \<and> map_of (pluginMap P) name \<noteq> None) \<and>
          map_of (pluginValidators P) failing = Some check
          \<longrightarrow> (\<exists>P'. load_pm P m = (P', Inl e) \<and>
                 (\<forall>name \<in> set earlier. map_of (pluginMap P') name =
                    map_option (\<lambda>bucket. bucket @ contribution name m)
                      (map_of (pluginMap P) name))))"
proof (intro conjI impI)
  assume a: "exportNames L = earlier @ failing # later \<and>
          (\<forall>name \<in> set earlier. truthy (get_prop m name) \<longrightarrow>
             accepts L name (get_prop m name) \<and> map_of (loaded L) name \<noteq> None) \<and>
          map_of (registered L) failing = Some plugin \<and> validate plugin = Some check"
  then have n: "exportNames L = earlier @ failing # later"
    and ok: "\<forall>name \<in> set earlier. truthy (get_prop m name) \<longrightarrow>
             accepts L name (get_prop m name) \<and> map_of (loaded L) name \<noteq> None"
    and p: "map_of (registered L) failing = Some plugin" "validate plugin = Some check"
    by blast+
  from load_interrupted[OF assms(1) n assms(2) ok assms(3) p assms(4)]
  show "\<exists>L'. load L m = (L', Inl e) \<and>
                 (\<forall>name \<in> set earlier. map_of (loaded L') name =
                    map_option (\<lambda>bucket. bucket @ contribution name m)
                      (map_of (loaded L) name))"
    by auto
next
  assume a: "pluginNames P = earlier @ failing # later \<and>
          (\<forall>name \<in> set earlier. truthy (get_prop m name) \<longrightarrow>
             accepts_pm P name (get_prop m name) \<and> map_of (pluginMap P) name \<noteq> None) \<and>
          map_of (pluginValidators P) failing = Some check"
  then have n: "pluginNames P = earlier @ failing # later"
    and ok: "\<forall>name \<in> set earlier. truthy (get_prop m name) \<longrightarrow>
             accepts_pm P name (get_prop m name) \<and> map_of (pluginMap P) name \<noteq> None"
    and p: "map_of (pluginValidators P) failing = Some check"
    by blast+
  from load_pm_interrupted[OF assms(1) n assms(2) ok assms(3) p assms(4)]
  show "\<exists>P'. load_pm P m = (P', Inl e) \<and>
                 (\<forall>name \<in> set earlier. map_of (pluginMap P') name =
                    map_option (\<lambda>bucket. bucket @ contribution name m)
                      (map_of (pluginMap P) name))"
    by auto
qed

theorem load_is_not_atomic_witness:
  "snd (load \<lparr>registered = map (\<lambda>p. (exportName p, p)) MochaPlugins,
          loaded = [(''mochaHooks'', []), (''mochaGlobalSetup'', []), (''mochaGlobalTeardown'', [])]\<rparr>
        (Obj [(''mochaGlobalSetup'', Num 42),
              (''mochaHooks'', Obj [(''beforeAll'', Fun ''a'' (Returns Undefined))])]))
     = Inl (UnsupportedError ''mochaGlobalSetup must be a function or an array of functions'')
   \<and> map_of (loaded (fst (load \<lparr>registered = map (\<lambda>p. (exportName p, p)) MochaPlugins,
          loaded = [(''mochaHooks'', []), (''mochaGlobalSetup'', []), (''mochaGlobalTeardown'', [])]\<rparr>
        (Obj [(''mochaGlobalSetup'', Num 42),
              (''mochaHooks'', Obj [(''beforeAll'', Fun ''a'' (Returns Undefined))])]))))
        ''mochaHooks''
     = Some [Obj [(''beforeAll'', Fun ''a'' (Returns Undefined))]]
   \<and> snd (load_pm (create_pm None None)
        (Obj [(''mochaGlobalSetup'', Num 42),
              (''mochaHooks'', Obj [(''beforeAll'', Fun ''a'' (Returns Undefined))])]))
     = Inl (UnsupportedError ''mochaGlobalSetup must be a function or an array of functions'')
   \<and> map_of (pluginMap (fst (load_pm (create_pm None None)
        (Obj [(''mochaGlobalSetup'', Num 42),
              (''mochaHooks'', Obj [(''beforeAll'', Fun ''a'' (Returns Undefined))])]))))
        ''mochaHooks''
     = Some [Obj [(''beforeAll'', Fun ''a'' (Returns Undefined))]]"
proof -
  let ?L = "\<lparr>registered = map (\<lambda>p. (exportName p, p)) MochaPlugins,
          loaded = [(''mochaHooks'', []), (''mochaGlobalSetup'', []), (''mochaGlobalTeardown'', [])]\<rparr>"
  let ?P = "create_pm None None"
  let ?h = "Obj [(''beforeAll'', Fun ''a'' (Returns Undefined))]"
  let ?m = "Obj [(''mochaGlobalSetup'', Num 42), (''mochaHooks'', ?h)]"
  let ?check = "createFunctionArrayValidator ''mochaGlobalSetup''"
  let ?e = "UnsupportedError ''mochaGlobalSetup must be a function or an array of functions''"
  let ?plugin = "\<lparr>exportName = ''mochaGlobalSetup'', optionName = Some ''globalSetup'',
       validate = Some ?check, finalize = None\<rparr>"
  have 1: "truthy ?m \<and> typeof ?m = TObject" by simp
  have 2: "distinct [''mochaHooks'']" by simp
  have 3: "truthy (get_prop ?m ''mochaGlobalSetup'')" by simp
  have 4: "?check (get_prop ?m ''mochaGlobalSetup'') = Some ?e"
    by (simp add: createFunctionArrayValidator_def createUnsupportedError_def)
  have 5: "exportNames ?L = [''mochaHooks''] @ ''mochaGlobalSetup'' # [''mochaGlobalTeardown''] \<and>
          (\<forall>name \<in> set [''mochaHooks'']. truthy (get_prop ?m name) \<longrightarrow>
             accepts ?L name (get_prop ?m name) \<and> map_of (loaded ?L) name \<noteq> None) \<and>
          map_of (registered ?L) ''mochaGlobalSetup'' = Some ?plugin \<and>
          validate ?plugin = Some ?check"
    by (simp add: exportNames_def MochaPlugins_def accepts_def mochaHooks_validate_def)
  have 6: "pluginNames ?P = [''mochaHooks''] @ ''mochaGlobalSetup'' # [''mochaGlobalTeardown''] \<and>
          (\<forall>name \<in> set [''mochaHooks'']. truthy (get_prop ?m name) \<longrightarrow>
             accepts_pm ?P name (get_prop ?m name) \<and> map_of (pluginMap ?P) name \<noteq> None) \<and>
          map_of (pluginValidators ?P) ''mochaGlobalSetup'' = Some ?check"
    by (simp add: create_pm_def new_PluginMapLoader_def PLUGIN_NAMES_def PLUGIN_ROOT_HOOKS_def
        PLUGIN_GLOBAL_SETUP_def PLUGIN_GLOBAL_TEARDOWN_def PluginValidators_def accepts_pm_def)
  have c: "contribution ''mochaHooks'' ?m = [?h]" by (simp add: contribution_def)
  have b: "map_of (loaded ?L) ''mochaHooks'' = Some []" by simp
  have b': "map_of (pluginMap ?P) ''mochaHooks'' = Some []"
    by (simp add: create_pm_def new_PluginMapLoader_def PLUGIN_NAMES_def PLUGIN_ROOT_HOOKS_def
        PLUGIN_GLOBAL_SETUP_def PLUGIN_GLOBAL_TEARDOWN_def)
  note inst = load_is_not_atomic[where m = ?m and earlier = "[''mochaHooks'']"
      and failing = "''mochaGlobalSetup''" and check = ?check and e = ?e and L = ?L
      and later = "[''mochaGlobalTeardown'']" and plugin = ?plugin and P = ?P, OF 1 2 3 4]
  from inst 5 obtain L' where L': "load ?L ?m = (L', Inl ?e)"
    "\<forall>name \<in> set [''mochaHooks'']. map_of (loaded L') name =
        map_option (\<lambda>bucket. bucket @ contribution name ?m) (map_of (loaded ?L) name)"
    by blast
  from inst 6 obtain P' where P': "load_pm ?P ?m = (P', Inl ?e)"
    "\<forall>name \<in> set [''mochaHooks'']. map_of (pluginMap P') name =
        map_option (\<lambda>bucket. bucket @ contribution name ?m) (map_of (pluginMap ?P) name)"
    by blast
  from L'(2) b have "map_of (loaded L') ''mochaHooks'' = Some [?h]"
    by (simp add: c)
  moreover from P'(2) b' have "map_of (pluginMap P') ''mochaHooks'' = Some [?h]"
    by (simp add: c)
  ultimately show ?thesis using L'(1) P'(1) by simp
qed

text \<open>
  Claim C2. As stated the claim fails for the loader with a plugin map, which knows
  no aggregators and puts a non-empty \<^verbatim>\<open>mochaGlobalSetup\<close> or \<^verbatim>\<open>mochaGlobalTeardown\<close> bucket
  into the output as it is. Amended: in the loader with a registry, every key of the object
  that \<^verbatim>\<open>finalize\<close> returns is the option key of a registered kind that defines a
  \<^verbatim>\<open>finalize\<close> aggregator and has a non-empty bucket, and its value is what that aggregator
  returned for the bucket; with the built-in definitions \<^verbatim>\<open>globalSetup\<close> and
  \<^verbatim>\<open>globalTeardown\<close> are never keys of the output, whatever was loaded. In the loader with
  a plugin map a non-empty bucket of global setup or teardown functions is the value of
  \<^verbatim>\<open>globalSetup\<close> or \<^verbatim>\<open>globalTeardown\<close> in the output.
\<close>

theorem registry_loader_surfaces_only_aggregated_kinds:
  "(\<forall>L' out key v. PluginLoader_finalize L = (L', Inr out) \<longrightarrow> map_of out key = Some v \<longrightarrow>
      (\<exists>name impls plugin aggregate. (name, impls) \<in> set (loaded L) \<and> impls \<noteq> [] \<and>
         map_of (registered L) name = Some plugin \<and> finalize plugin = Some aggregate \<and>
         aggregate impls = Inr v \<and> key = option_key plugin name))
   \<and> (\<forall>L0 out. create None = Inr L0 \<longrightarrow>
         snd (PluginLoader_finalize (fst (load_all L0 modules))) = Inr out \<longrightarrow>
         map_of out ''globalSetup'' = None \<and> map_of out ''globalTeardown'' = None)
   \<and> (\<forall>P' printed out fixtures. finalize_pm P = (P', printed, Inr out) \<longrightarrow>
         map_of (pluginMap P) PLUGIN_GLOBAL_SETUP = Some fixtures \<longrightarrow> fixtures \<noteq> [] \<longrightarrow>
         map_of out ''globalSetup'' = Some (Arr fixtures))
   \<and> (\<forall>P' printed out fixtures. finalize_pm P = (P', printed, Inr out) \<longrightarrow>
         map_of (pluginMap P) PLUGIN_GLOBAL_TEARDOWN = Some fixtures \<longrightarrow> fixtures \<noteq> [] \<longrightarrow>
         map_of out ''globalTeardown'' = Some (Arr fixtures))"
proof (intro conjI allI impI)
  fix L' out key v
  assume "PluginLoader_finalize L = (L', Inr out)" "map_of out key = Some v"
  then show "\<exists>name impls plugin aggregate. (name, impls) \<in> set (loaded L) \<and> impls \<noteq> [] \<and>
         map_of (registered L) name = Some plugin \<and> finalize plugin = Some aggregate \<and>
         aggregate impls = Inr v \<and> key = option_key plugin name"
    by (rule finalize_provenance)
next
  fix L0 out
  assume a: "create None = Inr L0"
    "snd (PluginLoader_finalize (fst (load_all L0 modules))) = Inr out"
  from builtin_finalize_keys[OF a]
  show "map_of out ''globalSetup'' = None" and "map_of out ''globalTeardown'' = None"
    by auto
next
  fix P' printed out fixtures
  assume a: "finalize_pm P = (P', printed, Inr out)"
    "map_of (pluginMap P) PLUGIN_GLOBAL_SETUP = Some fixtures" "fixtures \<noteq> []"
  from finalize_pm_returned[OF a(1)] a(2,3)
  show "map_of out ''globalSetup'' = Some (Arr fixtures)" by auto
next
  fix P' printed out fixtures
  assume a: "finalize_pm P = (P', printed, Inr out)"
    "map_of (pluginMap P) PLUGIN_GLOBAL_TEARDOWN = Some fixtures" "fixtures \<noteq> []"
  from finalize_pm_returned[OF a(1)] a(2,3)
  show "map_of out ''globalTeardown'' = Some (Arr fixtures)" by auto
qed

theorem registry_loader_surfaces_only_aggregated_kinds_witness:
  "snd (PluginLoader_finalize (fst (load_all
       \<lparr>registered = map (\<lambda>p. (exportName p, p)) MochaPlugins,
        loaded = [(''mochaHooks'', []), (''mochaGlobalSetup'', []), (''mochaGlobalTeardown'', [])]\<rparr>
       [Obj [(''mochaGlobalSetup'', Fun ''prepare'' (Returns Undefined))]]))) = Inr []
   \<and> map_of (projr (snd (PluginLoader_finalize (fst (load_all
       \<lparr>registered = map (\<lambda>p. (exportName p, p)) MochaPlugins,
        loaded = [(''mochaHooks'', []), (''mochaGlobalSetup'', []), (''mochaGlobalTeardown'', [])]\<rparr>
       [Obj [(''mochaGlobalSetup'', Fun ''prepare'' (Returns Undefined))]])))))
       ''globalSetup'' = None
   \<and> map_of (projr (snd (snd (finalize_pm (fst (load_pm (create_pm None None)
         (Obj [(''mochaGlobalSetup'', Fun ''prepare'' (Returns Undefined))])))))))
       ''globalSetup'' = Some (Arr [Fun ''prepare'' (Returns Undefined)])"
proof -
  let ?L0 = "\<lparr>registered = map (\<lambda>p. (exportName p, p)) MochaPlugins,
        loaded = [(''mochaHooks'', []), (''mochaGlobalSetup'', []), (''mochaGlobalTeardown'', [])]\<rparr>"
  let ?m = "Obj [(''mochaGlobalSetup'', Fun ''prepare'' (Returns Undefined))]"
  let ?L = "fst (load_all ?L0 [?m])"
  let ?P = "fst (load_pm (create_pm None None) ?m)"
  have L: "?L = \<lparr>registered = map (\<lambda>p. (exportName p, p)) MochaPlugins,
          loaded = [(''mochaHooks'', []),
                    (''mochaGlobalSetup'', [Fun ''prepare'' (Returns Undefined)]),
                    (''mochaGlobalTeardown'', [])]\<rparr>"
    by (simp add: load_global_setup)
  have fin: "snd (PluginLoader_finalize ?L) = Inr []"
    unfolding L by (simp add: PluginLoader_finalize_def MochaPlugins_def)
  have pm: "finalize_pm ?P = (?P, [], Inr [(''globalSetup'', Arr [Fun ''prepare'' (Returns Undefined)])])"
    by (simp add: load_pm_global_setup finalize_pm_def PLUGIN_ROOT_HOOKS_def PLUGIN_GLOBAL_SETUP_def
        PLUGIN_GLOBAL_TEARDOWN_def)
  have bucket: "map_of (pluginMap ?P) PLUGIN_GLOBAL_SETUP = Some [Fun ''prepare'' (Returns Undefined)]"
    by (simp add: load_pm_global_setup PLUGIN_GLOBAL_SETUP_def)
  note inst = registry_loader_surfaces_only_aggregated_kinds[of ?L "[?m]" ?P]
  from inst create_None fin have 1: "map_of [] ''globalSetup'' = (None :: jsval option)"
    by blast
  from inst pm bucket
  have 2: "map_of [(''globalSetup'', Arr [Fun ''prepare'' (Returns Undefined)])] ''globalSetup''
      = Some (Arr [Fun ''prepare'' (Returns Undefined)])"
    by blast
  from fin 1 2 pm show ?thesis by simp
qed

text \<open>
  The claim as stated fails: the loader with a plugin map, after loading a module that
  exports a global setup function, returns it under \<^verbatim>\<open>globalSetup\<close>.
\<close>

theorem plugin_map_loader_surfaces_global_setup:
  "snd (snd (finalize_pm (fst (load_pm (create_pm None None)
      (Obj [(''mochaGlobalSetup'', Fun ''prepare'' (Returns Undefined))])))))
   = Inr [(''globalSetup'', Arr [Fun ''prepare'' (Returns Undefined)])]"
  by (simp add: load_pm_global_setup finalize_pm_def PLUGIN_ROOT_HOOKS_def PLUGIN_GLOBAL_SETUP_def
        PLUGIN_GLOBAL_TEARDOWN_def)

text \<open>
  Claim C3. As stated the claim fails when two kinds have the same option name, which
  registration does not exclude: the key of the kind with the empty bucket is then placed
  for the other kind. Amended: the step of \<^verbatim>\<open>finalize\<close> for a kind with an empty bucket
  leaves the output as it is, whatever the aggregator of the kind would do, so the
  aggregator is not invoked and no key is placed for the kind; the option key of such a
  kind is in the output only if another registered kind with a non-empty bucket and an
  aggregator has the same option key. With the built-in definitions an empty
  \<^verbatim>\<open>mochaHooks\<close> bucket leaves \<^verbatim>\<open>rootHooks\<close> out of the output. In the loader with a plugin
  map an empty bucket leaves its key out of the output, and for empty root hooks
  \<^verbatim>\<open>aggregateRootHooks\<close> is not invoked: nothing is printed.
\<close>

theorem empty_bucket_places_no_key:
  "finalize_entries L ((name, []) # rest) settings = finalize_entries L rest settings
   \<and> (\<forall>L' out plugin. PluginLoader_finalize L = (L', Inr out) \<longrightarrow>
         distinct (map fst (loaded L)) \<longrightarrow> (name, []) \<in> set (loaded L) \<longrightarrow>
         map_of (registered L) name = Some plugin \<longrightarrow>
         map_of out (option_key plugin name) \<noteq> None \<longrightarrow>
         (\<exists>name' impls' plugin' aggregate. name' \<noteq> name \<and> (name', impls') \<in> set (loaded L) \<and>
            impls' \<noteq> [] \<and> map_of (registered L) name' = Some plugin' \<and>
            finalize plugin' = Some aggregate \<and>
            option_key plugin' name' = option_key plugin name))
   \<and> (\<forall>L0 out. create None = Inr L0 \<longrightarrow>
         snd (PluginLoader_finalize (fst (load_all L0 modules))) = Inr out \<longrightarrow>
         map_of (loaded (fst (load_all L0 modules))) ''mochaHooks'' = Some [] \<longrightarrow>
         map_of out ''rootHooks'' = None)
   \<and> (\<forall>P' printed out. finalize_pm P = (P', printed, Inr out) \<longrightarrow>
         (map_of (pluginMap P) PLUGIN_ROOT_HOOKS = Some [] \<longrightarrow>
            map_of out ''rootHooks'' = None \<and> printed = []) \<and>
         (map_of (pluginMap P) PLUGIN_GLOBAL_SETUP = Some [] \<longrightarrow>
            map_of out ''globalSetup'' = None) \<and>
         (map_of (pluginMap P) PLUGIN_GLOBAL_TEARDOWN = Some [] \<longrightarrow>
            map_of out ''globalTeardown'' = None))"
proof (intro conjI allI impI)
  show "finalize_entries L ((name, []) # rest) settings = finalize_entries L rest settings"
    by simp
next
  fix L' out plugin
  assume fin: "PluginLoader_finalize L = (L', Inr out)"
    and dist: "distinct (map fst (loaded L))"
    and empty: "(name, []) \<in> set (loaded L)"
    and key: "map_of out (option_key plugin name) \<noteq> None"
  from key obtain v where "map_of out (option_key plugin name) = Some v" by auto
  from finalize_provenance[OF fin this] obtain name' impls' plugin' aggregate where
    other: "(name', impls') \<in> set (loaded L)" "impls' \<noteq> []"
      "map_of (registered L) name' = Some plugin'" "finalize plugin' = Some aggregate"
      "option_key plugin name = option_key plugin' name'"
    by blast
  have "name' \<noteq> name"
  proof
    assume "name' = name"
    with other(1) empty dist have "impls' = []"
      by (auto dest: eq_key_imp_eq_value)
    with other(2) show False by simp
  qed
  with other show "\<exists>name' impls' plugin' aggregate. name' \<noteq> name \<and>
            (name', impls') \<in> set (loaded L) \<and>
            impls' \<noteq> [] \<and> map_of (registered L) name' = Some plugin' \<and>
            finalize plugin' = Some aggregate \<and>
            option_key plugin' name' = option_key plugin name"
    by auto
next
  fix L0 out
  assume a: "create None = Inr L0"
    "snd (PluginLoader_finalize (fst (load_all L0 modules))) = Inr out"
    and b: "map_of (loaded (fst (load_all L0 modules))) ''mochaHooks'' = Some []"
  from builtin_finalize_keys[OF a] b show "map_of out ''rootHooks'' = None" by auto
next
  fix P' printed out
  assume a: "finalize_pm P = (P', printed, Inr out)"
  {
    assume "map_of (pluginMap P) PLUGIN_ROOT_HOOKS = Some []"
    with finalize_pm_returned[OF a]
    show "map_of out ''rootHooks'' = None" and "printed = []" by auto
  }
  {
    assume "map_of (pluginMap P) PLUGIN_GLOBAL_SETUP = Some []"
    with finalize_pm_returned[OF a] show "map_of out ''globalSetup'' = None" by auto
  }
  {
    assume "map_of (pluginMap P) PLUGIN_GLOBAL_TEARDOWN = Some []"
    with finalize_pm_returned[OF a] show "map_of out ''globalTeardown'' = None" by auto
  }
qed

theorem empty_bucket_places_no_key_witness:
  "(snd (PluginLoader_finalize
       \<lparr>registered = map (\<lambda>p. (exportName p, p)) MochaPlugins,
        loaded = [(''mochaHooks'', []), (''mochaGlobalSetup'', []), (''mochaGlobalTeardown'', [])]\<rparr>)
     = Inr []
   \<and> map_of (projr (snd (PluginLoader_finalize
       \<lparr>registered = map (\<lambda>p. (exportName p, p)) MochaPlugins,
        loaded = [(''mochaHooks'', []), (''mochaGlobalSetup'', []), (''mochaGlobalTeardown'', [])]\<rparr>)))
       ''rootHooks'' = None
   \<and> finalize_pm (create_pm None None) = (create_pm None None, [], Inr [])
   \<and> map_of (projr (snd (snd (finalize_pm (create_pm None None))))) ''rootHooks'' = None)
   \<and> (\<exists>name' impls'. name' \<noteq> ''mochaHooks'' \<and> impls' \<noteq> [] \<and>
      (name', impls') \<in> set [(''mochaHooks'', []), (''mochaGlobalSetup'', []),
                    (''mochaGlobalTeardown'', []),
                    (''extraHooks'', [Obj [(''beforeAll'', Fun ''a'' (Returns Undefined))]])])"
  (is "?builtin \<and> ?shared")
proof -
  let ?L0 = "\<lparr>registered = map (\<lambda>p. (exportName p, p)) MochaPlugins,
        loaded = [(''mochaHooks'', []), (''mochaGlobalSetup'', []), (''mochaGlobalTeardown'', [])]\<rparr>"
  let ?P = "create_pm None None"
  have fin: "snd (PluginLoader_finalize (fst (load_all ?L0 []))) = Inr []"
    by (simp add: PluginLoader_finalize_def MochaPlugins_def)
  have bucket: "map_of (loaded (fst (load_all ?L0 []))) ''mochaHooks'' = Some []" by simp
  have pm: "finalize_pm ?P = (?P, [], Inr [])"
    by (simp add: create_pm_default finalize_pm_def PLUGIN_ROOT_HOOKS_def PLUGIN_GLOBAL_SETUP_def
        PLUGIN_GLOBAL_TEARDOWN_def)
  have pmb: "map_of (pluginMap ?P) PLUGIN_ROOT_HOOKS = Some []"
    by (simp add: create_pm_default PLUGIN_ROOT_HOOKS_def)
  note inst0 = empty_bucket_places_no_key[where modules = "[]" and P = ?P]
  from inst0 create_None fin bucket have 1: "map_of [] ''rootHooks'' = (None :: jsval option)"
    by blast
  from inst0 pm pmb have 2: "map_of [] ''rootHooks'' = (None :: jsval option) \<and> ([] :: jsval list) = []"
    by blast
  from fin 1 2 pm have builtin: "?builtin" by simp

  let ?extra = "\<lparr>exportName = ''extraHooks'', optionName = Some ''rootHooks'',
               validate = None, finalize = Some mochaHooks_finalize\<rparr>"
  let ?bs = "[(''mochaHooks'', []), (''mochaGlobalSetup'', []),
                    (''mochaGlobalTeardown'', []),
                    (''extraHooks'', [Obj [(''beforeAll'', Fun ''a'' (Returns Undefined))]])]"
  let ?L = "\<lparr>registered = map (\<lambda>p. (exportName p, p)) (MochaPlugins @ [?extra]), loaded = ?bs\<rparr>"
  let ?hooks = "\<lparr>exportName = ''mochaHooks'', optionName = Some ''rootHooks'',
       validate = Some mochaHooks_validate, finalize = Some mochaHooks_finalize\<rparr>"
  have d1: "distinct (map fst (loaded ?L))" by simp
  have d2: "(''mochaHooks'', []) \<in> set (loaded ?L)" by simp
  have d3: "map_of (registered ?L) ''mochaHooks'' = Some ?hooks" by (simp add: MochaPlugins_def)
  have d4: "map_of [(''rootHooks'',
            Obj [(''beforeAll'', Arr [Fun ''a'' (Returns Undefined)]), (''beforeEach'', Arr []),
                 (''afterAll'', Arr []), (''afterEach'', Arr [])])]
            (option_key ?hooks ''mochaHooks'') \<noteq> None"
    by (simp add: option_key_def)
  note second = empty_bucket_places_no_key[where L = ?L and name = "''mochaHooks''",
      THEN conjunct2, THEN conjunct1, rule_format]
  from second[OF shared_option_name_finalize d1 d2 d3 d4]
  have "\<exists>name' impls' plugin' aggregate. name' \<noteq> ''mochaHooks'' \<and>
            (name', impls') \<in> set (loaded ?L) \<and>
            impls' \<noteq> [] \<and> map_of (registered ?L) name' = Some plugin' \<and>
            finalize plugin' = Some aggregate \<and>
            option_key plugin' name' = option_key ?hooks ''mochaHooks''" .
  then obtain name' impls' where "name' \<noteq> ''mochaHooks''" "(name', impls') \<in> set (loaded ?L)"
    "impls' \<noteq> []" by blast
  then have "name' \<noteq> ''mochaHooks'' \<and> impls' \<noteq> [] \<and> (name', impls') \<in> set ?bs"
    by simp
  then have shared: "?shared" by (intro exI)
  from builtin shared show ?thesis by (rule conjI)
qed

text \<open>
  The claim as stated fails: a kind \<^verbatim>\<open>extraHooks\<close> registered next to the built-in kinds
  with the option name \<^verbatim>\<open>rootHooks\<close> and the aggregator of the root hooks. After a module
  that exports only \<^verbatim>\<open>extraHooks\<close> is loaded, the bucket of \<^verbatim>\<open>mochaHooks\<close> is empty, the
  option key of \<^verbatim>\<open>mochaHooks\<close> is \<^verbatim>\<open>rootHooks\<close>, and the output of \<^verbatim>\<open>finalize\<close> has the key
  \<^verbatim>\<open>rootHooks\<close>.
\<close>

theorem shared_option_name_surfaces_key_of_empty_bucket:
  "\<not> isl (create (Some (MochaPlugins @
      [\<lparr>exportName = ''extraHooks'', optionName = Some ''rootHooks'',
        validate = None, finalize = Some mochaHooks_finalize\<rparr>])))
   \<and> map_of (loaded (fst (load (projr (create (Some (MochaPlugins @
      [\<lparr>exportName = ''extraHooks'', optionName = Some ''rootHooks'',
        validate = None, finalize = Some mochaHooks_finalize\<rparr>]))))
      (Obj [(''extraHooks'', Obj [(''beforeAll'', Fun ''a'' (Returns Undefined))])]))))
      ''mochaHooks'' = Some []
   \<and> map_option (\<lambda>plugin. option_key plugin ''mochaHooks'')
        (map_of (registered (fst (load (projr (create (Some (MochaPlugins @
      [\<lparr>exportName = ''extraHooks'', optionName = Some ''rootHooks'',
        validate = None, finalize = Some mochaHooks_finalize\<rparr>]))))
      (Obj [(''extraHooks'', Obj [(''beforeAll'', Fun ''a'' (Returns Undefined))])]))))
      ''mochaHooks'') = Some ''rootHooks''
   \<and> snd (PluginLoader_finalize (fst (load (projr (create (Some (MochaPlugins @
      [\<lparr>exportName = ''extraHooks'', optionName = Some ''rootHooks'',
        validate = None, finalize = Some mochaHooks_finalize\<rparr>]))))
      (Obj [(''extraHooks'', Obj [(''beforeAll'', Fun ''a'' (Returns Undefined))])]))))
     = Inr [(''rootHooks'',
            Obj [(''beforeAll'', Arr [Fun ''a'' (Returns Undefined)]), (''beforeEach'', Arr []),
                 (''afterAll'', Arr []), (''afterEach'', Arr [])])]"
  unfolding shared_option_name_create sum.sel shared_option_name_load fst_conv
    shared_option_name_finalize snd_conv
  by (simp add: MochaPlugins_def option_key_def)

end
